theory Spec2Isabelle
  imports Main "HOL-Library.List_Lexorder" "HOL-Library.Product_Lexorder" "HOL-Library.AList"
begin

section \<open>Python strings\<close>

text \<open>
  Strings are character lists.  The helpers below are the methods of Python's \<open>str\<close>
  that \<open>cookiecutter/context.py\<close> calls: \<open>split\<close> with a one-character separator,
  \<open>strip\<close>, \<open>startswith\<close> and \<open>replace\<close>.  A character is a code point below 256; the
  whitespace \<open>strip\<close> removes is what \<open>str.isspace\<close> accepts among them: the space, the
  controls 9 to 13 and 28 to 31, the next-line control U+0085 and the no-break space
  U+00A0.
\<close>

definition is_space :: "char \<Rightarrow> bool" where
  "is_space c =
     (let n = (of_char c :: nat)
      in n = 32 \<or> (9 \<le> n \<and> n \<le> 13) \<or> (28 \<le> n \<and> n \<le> 31) \<or> n = 133 \<or> n = 160)"

definition strip :: "string \<Rightarrow> string" where
  "strip s = rev (dropWhile is_space (rev (dropWhile is_space s)))"

fun split_on :: "char \<Rightarrow> string \<Rightarrow> string list" where
  "split_on c [] = [[]]"
| "split_on c (x # xs) =
     (if x = c then [] # split_on c xs
      else (case split_on c xs of [] \<Rightarrow> [[x]] | y # ys \<Rightarrow> (x # y) # ys))"

definition startswith :: "string \<Rightarrow> string \<Rightarrow> bool" where
  "startswith s p = (take (length p) s = p)"

section \<open>Errors\<close>

text \<open>
  Every exception that can leave the module is a value.  \<open>ValueError\<close> and
  \<open>KeyError\<close> carry a short tag naming the raising statement.
\<close>

datatype error =
    ValueError string
  | KeyError string
  | TypeError
  | AttributeError
  | OverflowError
  | AssertionError
  | InvalidVersion string
  | BadParameter
  | TemplateError
  | Abort

section \<open>Requirement checker\<close>

datatype cmp_op = Eq | Lt | Le | Gt | Ge

definition op_mapping :: "(string \<times> cmp_op) list" where
  "op_mapping = [(''=='', Eq), (''<'', Lt), (''<='', Le), (''>'', Gt), (''>='', Ge)]"

fun apply_op :: "cmp_op \<Rightarrow> 'v::ord \<Rightarrow> 'v \<Rightarrow> bool" where
  "apply_op Eq a b = (a = b)"
| "apply_op Lt a b = (a < b)"
| "apply_op Le a b = (a \<le> b)"
| "apply_op Gt a b = (b < a)"
| "apply_op Ge a b = (b \<le> a)"

text \<open>
  \<open>version.parse\<close> belongs to the \<open>packaging\<close> library; the checker takes it as the
  parameter \<open>parse\<close>, with \<open>None\<close> for a string it rejects.  Parsed versions are
  compared with the order of their type.
\<close>

definition parse_or_raise :: "(string \<Rightarrow> 'v option) \<Rightarrow> string \<Rightarrow> error + 'v" where
  "parse_or_raise parse s = (case parse s of None \<Rightarrow> Inl (InvalidVersion s) | Some v \<Rightarrow> Inr v)"

definition validate_single_req ::
  "(string \<Rightarrow> 'v::ord option) \<Rightarrow> string \<Rightarrow> string \<Rightarrow> error + bool" where
  "validate_single_req parse pkg_version req_str =
     (let (operator, version_ref) =
        (case map_of op_mapping (take 2 req_str) of
           Some f \<Rightarrow> (f, drop 2 req_str)
         | None \<Rightarrow>
             (case map_of op_mapping (take 1 req_str) of
                Some f \<Rightarrow> (f, drop 1 req_str)
              | None \<Rightarrow> (Eq, req_str)))
      in case parse_or_raise parse pkg_version of
           Inl e \<Rightarrow> Inl e
         | Inr v \<Rightarrow>
             (case parse_or_raise parse version_ref of
                Inl e \<Rightarrow> Inl e
              | Inr r \<Rightarrow> Inr (apply_op operator v r)))"

text \<open>\<open>all(map(f, xs))\<close>: stops at the first false clause, raises at the first raising one.\<close>

fun all_map :: "('a \<Rightarrow> error + bool) \<Rightarrow> 'a list \<Rightarrow> error + bool" where
  "all_map f [] = Inr True"
| "all_map f (x # xs) =
     (case f x of Inl e \<Rightarrow> Inl e | Inr b \<Rightarrow> (if b then all_map f xs else Inr False))"

definition validate_requirement ::
  "(string \<Rightarrow> 'v::ord option) \<Rightarrow> string \<Rightarrow> string \<Rightarrow> error + bool" where
  "validate_requirement parse req_long_str pkg_version =
     (let req_list = map strip (split_on (CHR '','') req_long_str)
      in all_map (validate_single_req parse pkg_version) req_list)"

subsection \<open>Versions\<close>

text \<open>
  Modelled from the spec: \<open>version.parse\<close> of the \<open>packaging\<close> library, for releases
  \<open>N(.N)*\<close> and pre-releases of them.  The spec asks for a semantic version compared by
  "standard version-precedence rules (numeric segment comparison, pre-release
  ordering)".  A version is read without regard to case and to surrounding whitespace,
  with an optional leading \<open>v\<close>: its release segments are numbers, and a pre-release tag
  (\<open>a\<close> or \<open>alpha\<close>, \<open>b\<close> or \<open>beta\<close>, \<open>c\<close>, \<open>rc\<close>, \<open>pre\<close> or \<open>preview\<close>, set off
  by at most one of \<open>.\<close>, \<open>-\<close>, \<open>_\<close> on either side, followed by an optional number)
  may follow.  The parsed version is the key versions are compared by, a pair compared
  lexicographically: the release segments without trailing zeros (\<open>1.0\<close> and \<open>1.0.0\<close>
  are the same version), compared segment by segment, then the stage, where the
  pre-releases of a release come in the order alpha, beta, candidate, each by its
  number, and before the release itself.  Epochs, post-releases, development releases
  and local versions are outside this model: it rejects them.
\<close>

definition digit_val :: "char \<Rightarrow> nat option" where
  "digit_val c = (let n = (of_char c :: nat) in if 48 \<le> n \<and> n \<le> 57 then Some (n - 48) else None)"

fun decimal :: "nat \<Rightarrow> string \<Rightarrow> nat option" where
  "decimal acc [] = Some acc"
| "decimal acc (c # cs) =
     (case digit_val c of None \<Rightarrow> None | Some d \<Rightarrow> decimal (acc * 10 + d) cs)"

definition segment :: "string \<Rightarrow> nat option" where
  "segment s = (if s = [] then None else decimal 0 s)"

fun those_segments :: "string list \<Rightarrow> nat list option" where
  "those_segments [] = Some []"
| "those_segments (s # ss) =
     (case segment s of
        None \<Rightarrow> None
      | Some n \<Rightarrow> (case those_segments ss of None \<Rightarrow> None | Some ns \<Rightarrow> Some (n # ns)))"

definition strip_zeros :: "nat list \<Rightarrow> nat list" where
  "strip_zeros ns = rev (dropWhile (\<lambda>n. n = 0) (rev ns))"

definition lower :: "char \<Rightarrow> char" where
  "lower c = (let n = (of_char c :: nat) in if 65 \<le> n \<and> n \<le> 90 then char_of (n + 32) else c)"

definition is_digit :: "char \<Rightarrow> bool" where
  "is_digit c = (digit_val c \<noteq> None)"

definition is_letter :: "char \<Rightarrow> bool" where
  "is_letter c = (let n = (of_char c :: nat) in 97 \<le> n \<and> n \<le> 122)"

definition drop_separator :: "string \<Rightarrow> string" where
  "drop_separator s = (case s of [] \<Rightarrow> [] | c # cs \<Rightarrow> if c \<in> set ''.-_'' then cs else s)"

text \<open>
  The release is the longest run of digits and dots at the front; a dot that ends the
  run belongs to what follows.
\<close>

definition release_and_rest :: "string \<Rightarrow> string \<times> string" where
  "release_and_rest s =
     (let rel = takeWhile (\<lambda>c. is_digit c \<or> c = CHR ''.'') s;
          rest = dropWhile (\<lambda>c. is_digit c \<or> c = CHR ''.'') s
      in if rest \<noteq> [] \<and> rel \<noteq> [] \<and> last rel = CHR ''.'' then (butlast rel, CHR ''.'' # rest)
         else (rel, rest))"

definition stage_rank :: "string \<Rightarrow> nat option" where
  "stage_rank tag =
     (if tag = ''a'' \<or> tag = ''alpha'' then Some 0
      else if tag = ''b'' \<or> tag = ''beta'' then Some 1
      else if tag = ''c'' \<or> tag = ''rc'' \<or> tag = ''pre'' \<or> tag = ''preview'' then Some 2
      else None)"

text \<open>The stage of a version: \<open>[rank, number]\<close> for a pre-release, \<open>[3]\<close> for the release.\<close>

definition parse_stage :: "string \<Rightarrow> nat list option" where
  "parse_stage s =
     (if s = [] then Some [3]
      else
        (let s1 = drop_separator s;
             tag = takeWhile is_letter s1;
             number = drop_separator (dropWhile is_letter s1)
         in case stage_rank tag of
              None \<Rightarrow> None
            | Some rank \<Rightarrow> (case decimal 0 number of None \<Rightarrow> None | Some n \<Rightarrow> Some [rank, n])))"

definition parse_version :: "string \<Rightarrow> (nat list \<times> nat list) option" where
  "parse_version s =
     (let t = map lower (strip s);
          t = (case t of [] \<Rightarrow> [] | c # cs \<Rightarrow> if c = CHR ''v'' then cs else t);
          (rel, rest) = release_and_rest t
      in case those_segments (split_on (CHR ''.'') rel) of
           None \<Rightarrow> None
         | Some release \<Rightarrow>
             (case parse_stage rest of
                None \<Rightarrow> None
              | Some stage \<Rightarrow> Some (strip_zeros release, stage)))"

subsection \<open>The checker as the specification words it\<close>

text \<open>
  The five comparators of the specification, each with what it asks of the candidate
  version and the reference version of its clause.
\<close>

datatype comparator = Equal | Less | Less_or_equal | Greater | Greater_or_equal

fun compares :: "comparator \<Rightarrow> 'v::ord \<Rightarrow> 'v \<Rightarrow> bool" where
  "compares Equal candidate reference = (candidate = reference)"
| "compares Less candidate reference = (candidate < reference)"
| "compares Less_or_equal candidate reference = (candidate \<le> reference)"
| "compares Greater candidate reference = (reference < candidate)"
| "compares Greater_or_equal candidate reference = (reference \<le> candidate)"

text \<open>
  The leading comparator of a clause, read off the text: a two-character token first,
  then a one-character one, equality when there is none; with it, the remainder of the
  clause.
\<close>

fun leading_comparator :: "string \<Rightarrow> comparator \<times> string" where
  "leading_comparator (a # b # rest) =
     (if a = CHR ''='' \<and> b = CHR ''='' then (Equal, rest)
      else if a = CHR ''<'' \<and> b = CHR ''='' then (Less_or_equal, rest)
      else if a = CHR ''>'' \<and> b = CHR ''='' then (Greater_or_equal, rest)
      else if a = CHR ''<'' then (Less, b # rest)
      else if a = CHR ''>'' then (Greater, b # rest)
      else (Equal, a # b # rest))"
| "leading_comparator [a] =
     (if a = CHR ''<'' then (Less, [])
      else if a = CHR ''>'' then (Greater, [])
      else (Equal, [a]))"
| "leading_comparator [] = (Equal, [])"

definition clause_holds :: "(string \<Rightarrow> 'v::ord option) \<Rightarrow> string \<Rightarrow> string \<Rightarrow> bool" where
  "clause_holds parse candidate clause =
     (case leading_comparator clause of
        (cmp, ref) \<Rightarrow>
          (case (parse candidate, parse ref) of
             (Some v, Some r) \<Rightarrow> compares cmp v r
           | _ \<Rightarrow> False))"

definition satisfies :: "(string \<Rightarrow> 'v::ord option) \<Rightarrow> string \<Rightarrow> string \<Rightarrow> bool" where
  "satisfies parse requirement_expr candidate =
     list_all (clause_holds parse candidate) (map strip (split_on (CHR '','') requirement_expr))"

section \<open>Python values\<close>

text \<open>
  The values a loaded JSON document carries, and what the deserializers produce.
  Floating-point numbers are an abstract type \<open>'f\<close>: what Python computes on them
  (conversion, truth value, comparison) and the textual form of an object that is not
  a string are operations of the interpreter, collected in the record \<open>builtins\<close> and
  passed to every function that needs them.  A JSON object is an \<open>OrderedDict\<close>, an
  association list.
\<close>

datatype 'f pyval =
    PNone
  | PBool bool
  | PInt int
  | PFloat 'f
  | PStr string
  | PList "'f pyval list"
  | PDict "(string \<times> 'f pyval) list"

record 'f builtins =
  repr :: "'f pyval \<Rightarrow> string"
  float_of_int :: "int \<Rightarrow> 'f option"
  float_of_str :: "string \<Rightarrow> 'f option"
  int_of_float :: "'f \<Rightarrow> error + int"
  float_truth :: "'f \<Rightarrow> bool"
  float_eq :: "'f \<Rightarrow> 'f \<Rightarrow> bool"
  float_eq_int :: "'f \<Rightarrow> int \<Rightarrow> bool"

subsection \<open>Truth value and equality\<close>

fun py_truth :: "'f builtins \<Rightarrow> 'f pyval \<Rightarrow> bool" where
  "py_truth B PNone = False"
| "py_truth B (PBool b) = b"
| "py_truth B (PInt i) = (i \<noteq> 0)"
| "py_truth B (PFloat f) = float_truth B f"
| "py_truth B (PStr s) = (s \<noteq> [])"
| "py_truth B (PList xs) = (xs \<noteq> [])"
| "py_truth B (PDict kvs) = (kvs \<noteq> [])"

fun as_number :: "'f pyval \<Rightarrow> (int + 'f) option" where
  "as_number (PBool b) = Some (Inl (if b then 1 else 0))"
| "as_number (PInt i) = Some (Inl i)"
| "as_number (PFloat f) = Some (Inr f)"
| "as_number _ = None"

fun num_eq :: "'f builtins \<Rightarrow> int + 'f \<Rightarrow> int + 'f \<Rightarrow> bool" where
  "num_eq B (Inl i) (Inl j) = (i = j)"
| "num_eq B (Inl i) (Inr g) = float_eq_int B g i"
| "num_eq B (Inr f) (Inl j) = float_eq_int B f j"
| "num_eq B (Inr f) (Inr g) = float_eq B f g"

text \<open>
  Python's \<open>==\<close>: numbers compare by value across \<open>bool\<close>, \<open>int\<close> and \<open>float\<close>,
  lists elementwise, ordered dictionaries item by item in order, and values of different
  kinds are unequal.  Where Python compares the elements of a container, or looks a
  value up in a list (\<open>in\<close>, \<open>index\<close>), an element that is the very same object counts
  as equal before \<open>==\<close> is asked.  An element of the type \<open>'f\<close> is a float object, so
  that two values of the model are the same object when they are the same value of the
  model; this matters for a float that is not equal to itself only.
\<close>

fun py_eq :: "'f builtins \<Rightarrow> 'f pyval \<Rightarrow> 'f pyval \<Rightarrow> bool"
  and py_eq_list :: "'f builtins \<Rightarrow> 'f pyval list \<Rightarrow> 'f pyval list \<Rightarrow> bool"
  and py_eq_items :: "'f builtins \<Rightarrow> (string \<times> 'f pyval) list \<Rightarrow> (string \<times> 'f pyval) list \<Rightarrow> bool"
where
  "py_eq B (PList xs) (PList ys) = py_eq_list B xs ys"
| "py_eq B (PDict xs) (PDict ys) = py_eq_items B xs ys"
| "py_eq B (PStr s) (PStr t) = (s = t)"
| "py_eq B PNone PNone = True"
| "py_eq B a b =
     (case (as_number a, as_number b) of (Some x, Some y) \<Rightarrow> num_eq B x y | _ \<Rightarrow> False)"
| "py_eq_list B [] [] = True"
| "py_eq_list B (x # xs) (y # ys) = ((x = y \<or> py_eq B x y) \<and> py_eq_list B xs ys)"
| "py_eq_list B _ _ = False"
| "py_eq_items B [] [] = True"
| "py_eq_items B ((k, x) # xs) ((l, y) # ys) =
     (k = l \<and> (x = y \<or> py_eq B x y) \<and> py_eq_items B xs ys)"
| "py_eq_items B _ _ = False"

text \<open>\<open>x in xs\<close> and \<open>xs.index(x)\<close> on a list.\<close>

definition py_in :: "'f builtins \<Rightarrow> 'f pyval \<Rightarrow> 'f pyval list \<Rightarrow> bool" where
  "py_in B x xs = list_ex (\<lambda>y. y = x \<or> py_eq B y x) xs"

fun py_index :: "'f builtins \<Rightarrow> 'f pyval list \<Rightarrow> 'f pyval \<Rightarrow> error + nat" where
  "py_index B [] x = Inl (ValueError ''is not in list'')"
| "py_index B (y # ys) x =
     (if y = x \<or> py_eq B y x then Inr 0
      else (case py_index B ys x of Inl e \<Rightarrow> Inl e | Inr i \<Rightarrow> Inr (Suc i)))"

subsection \<open>Conversions\<close>

text \<open>\<open>str(value)\<close>: a string is returned as it is, anything else is printed.\<close>

fun py_str :: "'f builtins \<Rightarrow> 'f pyval \<Rightarrow> string" where
  "py_str B (PStr s) = s"
| "py_str B v = repr B v"

text \<open>
  \<open>int(text, base)\<close> for bases 10 and 16: surrounding whitespace, an optional sign, for
  base 16 an optional \<open>0x\<close> prefix, then digits, where single underscores may separate
  digits.
\<close>

definition digit_of :: "nat \<Rightarrow> char \<Rightarrow> nat option" where
  "digit_of base c =
     (let n = (of_char c :: nat);
          d = (if 48 \<le> n \<and> n \<le> 57 then Some (n - 48)
               else if 97 \<le> n \<and> n \<le> 122 then Some (n - 87)
               else if 65 \<le> n \<and> n \<le> 90 then Some (n - 55)
               else None)
      in case d of None \<Rightarrow> None | Some k \<Rightarrow> (if k < base then Some k else None))"

fun digits :: "nat \<Rightarrow> nat \<Rightarrow> string \<Rightarrow> nat option" where
  "digits base acc [] = Some acc"
| "digits base acc [c] =
     (case digit_of base c of None \<Rightarrow> None | Some k \<Rightarrow> Some (acc * base + k))"
| "digits base acc (c # d # ds) =
     (if c = CHR ''_'' then
        (case digit_of base d of None \<Rightarrow> None | Some k \<Rightarrow> digits base (acc * base + k) ds)
      else
        (case digit_of base c of None \<Rightarrow> None | Some k \<Rightarrow> digits base (acc * base + k) (d # ds)))"

definition int_of_str :: "nat \<Rightarrow> string \<Rightarrow> int option" where
  "int_of_str base s =
     (let t = strip s;
          (negative, u) =
            (case t of
               [] \<Rightarrow> (False, t)
             | c # r \<Rightarrow> if c = CHR ''+'' then (False, r) else if c = CHR ''-'' then (True, r) else (False, t));
          w = (if base = 16 \<and> (take 2 u = ''0x'' \<or> take 2 u = ''0X'')
               then (if take 1 (drop 2 u) = ''_'' then drop 3 u else drop 2 u)
               else u)
      in case w of
           [] \<Rightarrow> None
         | c # cs \<Rightarrow>
             (case digit_of base c of
                None \<Rightarrow> None
              | Some k \<Rightarrow> map_option (\<lambda>n. if negative then - int n else int n) (digits base k cs)))"

fun py_int :: "'f builtins \<Rightarrow> 'f pyval \<Rightarrow> error + int" where
  "py_int B (PInt i) = Inr i"
| "py_int B (PBool b) = Inr (if b then 1 else 0)"
| "py_int B (PFloat f) = int_of_float B f"
| "py_int B (PStr s) =
     (case int_of_str 10 s of None \<Rightarrow> Inl (ValueError ''invalid literal for int()'') | Some i \<Rightarrow> Inr i)"
| "py_int B _ = Inl TypeError"

fun py_float :: "'f builtins \<Rightarrow> 'f pyval \<Rightarrow> error + 'f" where
  "py_float B (PFloat f) = Inr f"
| "py_float B (PInt i) = (case float_of_int B i of None \<Rightarrow> Inl OverflowError | Some f \<Rightarrow> Inr f)"
| "py_float B (PBool b) =
     (case float_of_int B (if b then 1 else 0) of None \<Rightarrow> Inl OverflowError | Some f \<Rightarrow> Inr f)"
| "py_float B (PStr s) =
     (case float_of_str B s of
        None \<Rightarrow> Inl (ValueError ''could not convert string to float'')
      | Some f \<Rightarrow> Inr f)"
| "py_float B _ = Inl TypeError"

subsection \<open>UUIDs\<close>

text \<open>
  \<open>uuid.UUID(text)\<close> of the standard library: the prefixes \<open>urn:\<close> and \<open>uuid:\<close>,
  surrounding braces and all hyphens are removed, 32 characters must remain, and they
  are read as a hexadecimal number below \<open>2 ^ 128\<close>.  \<open>.hex\<close> prints the number with
  32 lower-case hexadecimal digits.
\<close>

function replace :: "string \<Rightarrow> string \<Rightarrow> string \<Rightarrow> string" where
  "replace old new [] = []"
| "replace old new (c # cs) =
     (if old \<noteq> [] \<and> take (length old) (c # cs) = old
      then new @ replace old new (drop (length old) (c # cs))
      else c # replace old new cs)"
  by pat_completeness auto
termination
  by (relation "measure (\<lambda>(old, new, s). length s)") auto

definition strip_chars :: "string \<Rightarrow> string \<Rightarrow> string" where
  "strip_chars chars s =
     rev (dropWhile (\<lambda>c. c \<in> set chars) (rev (dropWhile (\<lambda>c. c \<in> set chars) s)))"

definition uuid_of_str :: "string \<Rightarrow> error + nat" where
  "uuid_of_str s =
     (let hex = replace ''uuid:'' '''' (replace ''urn:'' '''' s);
          hex = replace ''-'' '''' (strip_chars ''{}'' hex)
      in if length hex \<noteq> 32 then Inl (ValueError ''badly formed hexadecimal UUID string'')
         else (case int_of_str 16 hex of
                 None \<Rightarrow> Inl (ValueError ''invalid literal for int() with base 16'')
               | Some i \<Rightarrow>
                   if 0 \<le> i \<and> i < 2 ^ 128 then Inr (nat i)
                   else Inl (ValueError ''int is out of range (need a 128-bit value)'')))"

definition hex_char :: "nat \<Rightarrow> char" where
  "hex_char d = (if d < 10 then char_of (48 + d) else char_of (87 + d))"

fun hex_digits :: "nat \<Rightarrow> nat \<Rightarrow> string" where
  "hex_digits 0 n = []"
| "hex_digits (Suc k) n = hex_digits k (n div 16) @ [hex_char (n mod 16)]"

definition uuid_hex :: "nat \<Rightarrow> string" where
  "uuid_hex n = hex_digits 32 n"

text \<open>
  \<open>click.UUID(value)\<close>: the parameter type called on a value.  \<open>None\<close> is handed
  back as it is; otherwise the value goes to \<open>uuid.UUID\<close>, whose \<open>ValueError\<close> click
  turns into its own \<open>BadParameter\<close>.  A value that is no string has none of the
  string methods \<open>uuid.UUID\<close> calls.
\<close>

fun click_UUID :: "'f pyval \<Rightarrow> error + nat option" where
  "click_UUID PNone = Inr None"
| "click_UUID (PStr s) = (case uuid_of_str s of Inl e \<Rightarrow> Inl BadParameter | Inr n \<Rightarrow> Inr (Some n))"
| "click_UUID _ = Inl AttributeError"

section \<open>Type registry: deserializers\<close>

definition deserialize_string :: "'f builtins \<Rightarrow> 'f pyval \<Rightarrow> error + 'f pyval" where
  "deserialize_string B v = Inr (PStr (py_str B v))"

definition deserialize_boolean :: "'f builtins \<Rightarrow> 'f pyval \<Rightarrow> error + 'f pyval" where
  "deserialize_boolean B v = Inr (PBool (py_truth B v))"

definition deserialize_yes_no :: "'f builtins \<Rightarrow> 'f pyval \<Rightarrow> error + 'f pyval" where
  "deserialize_yes_no B v = Inr (PBool (py_truth B v))"

definition deserialize_int :: "'f builtins \<Rightarrow> 'f pyval \<Rightarrow> error + 'f pyval" where
  "deserialize_int B v = (case py_int B v of Inl e \<Rightarrow> Inl e | Inr i \<Rightarrow> Inr (PInt i))"

definition deserialize_float :: "'f builtins \<Rightarrow> 'f pyval \<Rightarrow> error + 'f pyval" where
  "deserialize_float B v = (case py_float B v of Inl e \<Rightarrow> Inl e | Inr f \<Rightarrow> Inr (PFloat f))"

definition deserialize_uuid :: "'f builtins \<Rightarrow> 'f pyval \<Rightarrow> error + 'f pyval" where
  "deserialize_uuid B v =
     (case click_UUID v of
        Inl e \<Rightarrow> Inl e
      | Inr None \<Rightarrow> Inl AttributeError
      | Inr (Some n) \<Rightarrow> Inr (PStr (uuid_hex n)))"

definition deserialize_json :: "'f builtins \<Rightarrow> 'f pyval \<Rightarrow> error + 'f pyval" where
  "deserialize_json B v = Inr v"

definition DESERIALIZERS :: "(string \<times> ('f builtins \<Rightarrow> 'f pyval \<Rightarrow> error + 'f pyval)) list" where
  "DESERIALIZERS =
     [(''string'', deserialize_string),
      (''boolean'', deserialize_boolean),
      (''int'', deserialize_int),
      (''float'', deserialize_float),
      (''uuid'', deserialize_uuid),
      (''json'', deserialize_json),
      (''yes_no'', deserialize_yes_no)]"

section \<open>Variable model\<close>

datatype re_flag = ASCII | DEBUG | IGNORECASE | LOCALE | MULTILINE | DOTALL | VERBOSE

definition REGEX_COMPILE_FLAGS :: "(string \<times> re_flag) list" where
  "REGEX_COMPILE_FLAGS =
     [(''ascii'', ASCII),
      (''debug'', DEBUG),
      (''ignorecase'', IGNORECASE),
      (''locale'', LOCALE),
      (''mulitline'', MULTILINE),
      (''dotall'', DOTALL),
      (''verbose'', VERBOSE)]"

text \<open>
  The keyword arguments of \<open>Variable(name, type, **info)\<close>, one entry of the
  \<open>variables\<close> list of the document.  An optional key is \<open>None\<close> when the
  declaration does not have it.
\<close>

record 'f var_decl =
  d_name :: string
  d_type :: string
  d_description :: "string option"
  d_prompt :: "string option"
  d_prompt_user :: "bool option"
  d_hide_input :: "bool option"
  d_default :: "'f pyval option"
  d_skip_if :: "string option"
  d_do_if :: "string option"
  d_if_yes_skip_to :: "string option"
  d_if_no_skip_to :: "string option"
  d_choices :: "'f pyval list option"
  d_validation :: "string option"
  d_validation_msg :: "string option"
  d_validation_flags :: "string list option"

text \<open>
  \<open>re.compile\<close> is the parameter \<open>compile\<close> of the constructor.  It hands back a
  compiled pattern, which is the predicate its \<open>match\<close> method computes on a string, or
  raises: \<open>re.error\<close>, which the constructor catches, or another exception, which it
  does not (\<open>ValueError\<close> for the flag \<open>LOCALE\<close> with a pattern that is a string).
\<close>

datatype compile_result = Compiled "string \<Rightarrow> bool" | Re_error | Raised error

text \<open>The attributes of a \<open>Variable\<close> object.  The flags \<open>|=\<close> accumulates are a set.\<close>

record 'f variable =
  v_name :: string
  var_type :: string
  v_description :: "string option"
  v_prompt :: string
  v_hide_input :: bool
  v_default :: "'f pyval"
  v_skip_if :: string
  v_do_if :: string
  v_if_yes_skip_to :: "string option"
  v_if_no_skip_to :: "string option"
  v_prompt_user :: bool
  v_choices :: "'f pyval list"
  v_validation :: "string option"
  v_validate :: "(string \<Rightarrow> bool) option"
  v_validation_msg :: "string option"
  v_validation_flag_names :: "string list"
  v_validation_flags :: "re_flag set"

definition get_or :: "'a option \<Rightarrow> 'a \<Rightarrow> 'a" where
  "get_or x d = (case x of None \<Rightarrow> d | Some v \<Rightarrow> v)"

definition truthy :: "string option \<Rightarrow> bool" where
  "truthy x = (case x of None \<Rightarrow> False | Some s \<Rightarrow> s \<noteq> [])"

definition DEFAULT_PROMPT :: "string \<Rightarrow> string" where
  "DEFAULT_PROMPT name = ''Please enter a value for \"'' @ name @ ''\"''"

text \<open>The loop \<open>for vflag in names: flags |= REGEX_COMPILE_FLAGS[vflag]\<close>.\<close>

fun compile_flags :: "string list \<Rightarrow> re_flag set \<Rightarrow> error + re_flag set" where
  "compile_flags [] flags = Inr flags"
| "compile_flags (vflag # rest) flags =
     (case map_of REGEX_COMPILE_FLAGS vflag of
        None \<Rightarrow> Inl (KeyError vflag)
      | Some f \<Rightarrow> compile_flags rest (flags \<union> {f}))"

definition Variable_init ::
  "'f builtins \<Rightarrow> (string \<Rightarrow> re_flag set \<Rightarrow> compile_result) \<Rightarrow> 'f var_decl
     \<Rightarrow> error + 'f variable" where
  "Variable_init B compile d =
     (let self = \<lparr>
            v_name = d_name d,
            var_type = d_type d,
            v_description = d_description d,
            v_prompt = get_or (d_prompt d) (DEFAULT_PROMPT (d_name d)),
            v_hide_input = get_or (d_hide_input d) False,
            v_default = get_or (d_default d) PNone,
            v_skip_if = get_or (d_skip_if d) '''',
            v_do_if = get_or (d_do_if d) '''',
            v_if_yes_skip_to = d_if_yes_skip_to d,
            v_if_no_skip_to = d_if_no_skip_to d,
            v_prompt_user = (if startswith (d_name d) ''_'' then False else get_or (d_prompt_user d) True),
            v_choices = get_or (d_choices d) [],
            v_validation = d_validation d,
            v_validate = None,
            v_validation_msg = None,
            v_validation_flag_names = [],
            v_validation_flags = {} \<rparr>
      in if v_choices self \<noteq> [] \<and> d_default d \<noteq> None
            \<and> \<not> py_in B (v_default self) (v_choices self)
         then Inl (ValueError ''invalid default value for choices'')
         else if truthy (v_validation self) then
           (case compile_flags (get_or (d_validation_flags d) []) {} of
              Inl e \<Rightarrow> Inl e
            | Inr flags \<Rightarrow>
                (case compile (get_or (v_validation self) '''') flags of
                   Re_error \<Rightarrow> Inl (ValueError ''Validation Setup Error: Invalid RegEx'')
                 | Raised e \<Rightarrow> Inl e
                 | Compiled m \<Rightarrow>
                     if var_type self \<noteq> ''string''
                     then Inl (ValueError ''attempting regex validation on non-string input'')
                     else Inr (self\<lparr>
                            v_validate := Some m,
                            v_validation_msg := d_validation_msg d,
                            v_validation_flag_names := get_or (d_validation_flags d) [],
                            v_validation_flags := flags \<rparr>)))
         else Inr self)"

text \<open>
  The condition the specification calls \<open>ChoiceDefaultMismatch\<close>, in its words: an
  explicit default is given, \<open>choices\<close> is non-empty, and the default is not a member of
  the choices, that is, no choice is the default itself or equal to it.
\<close>

definition ChoiceDefaultMismatch :: "'f builtins \<Rightarrow> 'f var_decl \<Rightarrow> bool" where
  "ChoiceDefaultMismatch B d =
     (case (d_default d, d_choices d) of
        (Some x, Some choices) \<Rightarrow>
          choices \<noteq> [] \<and> \<not> (\<exists>c \<in> set choices. c = x \<or> py_eq B c x)
      | _ \<Rightarrow> False)"

text \<open>
  What the specification asks of a validation pattern, in its words: the flag names are
  in the supported set, which is the key set of \<open>REGEX_COMPILE_FLAGS\<close> here, the pattern
  compiles with the flags the names stand for, and the type of the variable is
  \<open>string\<close>.
\<close>

definition named_flags :: "string list \<Rightarrow> re_flag set" where
  "named_flags names =
     set (map snd (filter (\<lambda>entry. fst entry \<in> set names) REGEX_COMPILE_FLAGS))"

definition validation_accepted ::
  "(string \<Rightarrow> re_flag set \<Rightarrow> compile_result) \<Rightarrow> 'f var_decl \<Rightarrow> bool" where
  "validation_accepted compile d =
     (set (get_or (d_validation_flags d) []) \<subseteq> set (map fst REGEX_COMPILE_FLAGS)
      \<and> (case compile (get_or (d_validation d) '''')
                  (named_flags (get_or (d_validation_flags d) [])) of
            Compiled m \<Rightarrow> True
          | _ \<Rightarrow> False)
      \<and> d_type d = ''string'')"

section \<open>Template\<close>

text \<open>
  The document handed to \<open>load_context\<close>, after \<open>validate\<close> of
  \<open>cookiecutter.schema\<close> has accepted it: the types of the fields are what the schema
  asks for.  \<open>CookiecutterTemplate(**json_object)\<close> takes the key \<open>template\<close> as its
  first argument and the other keys as options.  The version of cookiecutter
  (\<open>__version__\<close>) and of the interpreter (\<open>sys.version.split()[0]\<close>) are in \<open>host\<close>.
\<close>

record 'f template_decl =
  t_name :: string
  t_variables :: "'f var_decl list"
  t_authors :: "'f pyval option"
  t_description :: "'f pyval option"
  t_keywords :: "'f pyval option"
  t_license :: "'f pyval option"
  t_url :: "'f pyval option"
  t_version :: "'f pyval option"

record 'f json_object =
  jo_template :: "'f template_decl"
  jo_requires :: "(string \<times> string) list option"
  jo_extensions :: "'f pyval option"
  jo_jinja2_env_vars :: "'f pyval option"

record host =
  cookiecutter_version :: string
  python_version :: string

record 'f cookiecutter_template =
  ct_name :: string
  ct_requirements :: "(string \<times> string) list option"
  ct_extensions :: "'f pyval option"
  ct_variables :: "'f variable list"
  ct_authors :: "'f pyval"
  ct_description :: "'f pyval"
  ct_keywords :: "'f pyval"
  ct_license :: "'f pyval"
  ct_url :: "'f pyval"
  ct_version :: "'f pyval"

text \<open>
  \<open>if version: assert validate_requirement(version, actual)\<close>, for the requirement
  stored under one key of \<open>requires\<close>.
\<close>

definition check_requirement ::
  "(string \<Rightarrow> 'v::ord option) \<Rightarrow> (string \<times> string) list \<Rightarrow> string \<Rightarrow> string \<Rightarrow> error + unit" where
  "check_requirement parse requirements key actual =
     (if truthy (map_of requirements key) then
        (case validate_requirement parse (get_or (map_of requirements key) '''') actual of
           Inl e \<Rightarrow> Inl e
         | Inr b \<Rightarrow> if b then Inr () else Inl AssertionError)
      else Inr ())"

text \<open>The list comprehension \<open>[Variable(**v) for v in variables]\<close>: the first error ends it.\<close>

fun map_result :: "('a \<Rightarrow> error + 'b) \<Rightarrow> 'a list \<Rightarrow> error + 'b list" where
  "map_result f [] = Inr []"
| "map_result f (x # xs) =
     (case f x of
        Inl e \<Rightarrow> Inl e
      | Inr y \<Rightarrow> (case map_result f xs of Inl e \<Rightarrow> Inl e | Inr ys \<Rightarrow> Inr (y # ys)))"

definition CookiecutterTemplate_init ::
  "'f builtins \<Rightarrow> (string \<Rightarrow> re_flag set \<Rightarrow> compile_result) \<Rightarrow> (string \<Rightarrow> 'v::ord option)
     \<Rightarrow> host \<Rightarrow> 'f json_object \<Rightarrow> error + 'f cookiecutter_template" where
  "CookiecutterTemplate_init B compile parse h jo =
     (let template = jo_template jo;
          requirements = jo_requires jo;
          checked =
            (if requirements \<noteq> None \<and> requirements \<noteq> Some [] then
               (case check_requirement parse (get_or requirements []) ''cookiecutter''
                       (cookiecutter_version h) of
                  Inl e \<Rightarrow> Inl e
                | Inr _ \<Rightarrow>
                    check_requirement parse (get_or requirements []) ''python'' (python_version h))
             else Inr ())
      in case checked of
           Inl e \<Rightarrow> Inl e
         | Inr _ \<Rightarrow>
             (case map_result (Variable_init B compile) (t_variables template) of
                Inl e \<Rightarrow> Inl e
              | Inr vars \<Rightarrow>
                  Inr \<lparr> ct_name = t_name template,
                        ct_requirements = requirements,
                        ct_extensions = jo_extensions jo,
                        ct_variables = vars,
                        ct_authors = get_or (t_authors template) (PList []),
                        ct_description = get_or (t_description template) PNone,
                        ct_keywords = get_or (t_keywords template) (PList []),
                        ct_license = get_or (t_license template) PNone,
                        ct_url = get_or (t_url template) PNone,
                        ct_version = get_or (t_version template) PNone \<rparr>))"

section \<open>The terminal\<close>

text \<open>
  \<open>click.prompt\<close>, \<open>click.echo\<close>, \<open>click.get_terminal_size\<close> and the logger act on
  the world outside.  The world holds the values the next calls of \<open>click.prompt\<close> will
  return (what the operator enters, as click hands it back after its own conversion and
  its own retries), the width of the terminal, and the record of every prompt, echo and
  warning made so far.  When the operator has nothing more to enter, \<open>click.prompt\<close>
  raises \<open>Abort\<close>.
\<close>

datatype click_type =
    Click_STRING | Click_BOOL | Click_INT | Click_FLOAT | Click_UUID | Click_Choice "string list"

datatype 'f event =
    Prompted string "'f pyval" bool click_type
  | Echoed string
  | Warned string

record 'f world =
  answers :: "'f pyval list"
  terminal_width :: nat
  events :: "'f event list"

definition click_prompt ::
  "string \<Rightarrow> 'f pyval \<Rightarrow> bool \<Rightarrow> click_type \<Rightarrow> 'f world \<Rightarrow> (error + 'f pyval) \<times> 'f world" where
  "click_prompt msg dflt hide ty w =
     (let w' = w\<lparr>events := events w @ [Prompted msg dflt hide ty]\<rparr>
      in case answers w of
           [] \<Rightarrow> (Inl Abort, w')
         | a # rest \<Rightarrow> (Inr a, w'\<lparr>answers := rest\<rparr>))"

definition click_echo :: "string \<Rightarrow> 'f world \<Rightarrow> 'f world" where
  "click_echo s w = w\<lparr>events := events w @ [Echoed s]\<rparr>"

definition logger_warning :: "string \<Rightarrow> 'f world \<Rightarrow> 'f world" where
  "logger_warning s w = w\<lparr>events := events w @ [Warned s]\<rparr>"

definition prompts_of :: "'f world \<Rightarrow> 'f event list" where
  "prompts_of w = filter (\<lambda>e. case e of Prompted _ _ _ _ \<Rightarrow> True | _ \<Rightarrow> False) (events w)"

section \<open>Type registry: prompts\<close>

definition prompt_string ::
  "'f builtins \<Rightarrow> 'f variable \<Rightarrow> 'f pyval \<Rightarrow> 'f world \<Rightarrow> (error + 'f pyval) \<times> 'f world" where
  "prompt_string B variable dflt w = click_prompt (v_prompt variable) dflt (v_hide_input variable) Click_STRING w"

definition prompt_boolean ::
  "'f builtins \<Rightarrow> 'f variable \<Rightarrow> 'f pyval \<Rightarrow> 'f world \<Rightarrow> (error + 'f pyval) \<times> 'f world" where
  "prompt_boolean B variable dflt w = click_prompt (v_prompt variable) dflt (v_hide_input variable) Click_BOOL w"

definition prompt_int ::
  "'f builtins \<Rightarrow> 'f variable \<Rightarrow> 'f pyval \<Rightarrow> 'f world \<Rightarrow> (error + 'f pyval) \<times> 'f world" where
  "prompt_int B variable dflt w = click_prompt (v_prompt variable) dflt (v_hide_input variable) Click_INT w"

definition prompt_float ::
  "'f builtins \<Rightarrow> 'f variable \<Rightarrow> 'f pyval \<Rightarrow> 'f world \<Rightarrow> (error + 'f pyval) \<times> 'f world" where
  "prompt_float B variable dflt w = click_prompt (v_prompt variable) dflt (v_hide_input variable) Click_FLOAT w"

definition prompt_uuid ::
  "'f builtins \<Rightarrow> 'f variable \<Rightarrow> 'f pyval \<Rightarrow> 'f world \<Rightarrow> (error + 'f pyval) \<times> 'f world" where
  "prompt_uuid B variable dflt w = click_prompt (v_prompt variable) dflt (v_hide_input variable) Click_UUID w"

text \<open>
  \<open>prompt_json\<close> shows the word \<open>default\<close> instead of the document's value and hands
  the value back when click returns that word.  Decoding what the operator enters
  (\<open>value_proc\<close>) happens inside \<open>click.prompt\<close>.
\<close>

definition prompt_json ::
  "'f builtins \<Rightarrow> 'f variable \<Rightarrow> 'f pyval \<Rightarrow> 'f world \<Rightarrow> (error + 'f pyval) \<times> 'f world" where
  "prompt_json B variable dflt w =
     (let default_json = ''default''
      in case click_prompt (v_prompt variable) (PStr default_json) (v_hide_input variable) Click_STRING w of
           (Inl e, w') \<Rightarrow> (Inl e, w')
         | (Inr dict_value, w') \<Rightarrow>
             (if py_eq B dict_value (PStr default_json) then (Inr dflt, w') else (Inr dict_value, w')))"

definition prompt_yes_no ::
  "'f builtins \<Rightarrow> 'f variable \<Rightarrow> 'f pyval \<Rightarrow> 'f world \<Rightarrow> (error + 'f pyval) \<times> 'f world" where
  "prompt_yes_no B variable dflt w =
     (let default_display = (if dflt = PBool True then ''y'' else ''n'')
      in case click_prompt (v_prompt variable) (PStr default_display) (v_hide_input variable) Click_BOOL w of
           (Inl e, w') \<Rightarrow> (Inl e, w')
         | (Inr val, w') \<Rightarrow>
             (if py_eq B val (PStr default_display) then (Inr dflt, w') else (Inr val, w')))"

text \<open>\<open>str(n)\<close> of a natural number, and \<open>sep.join(xs)\<close>.\<close>

function str_nat :: "nat \<Rightarrow> string" where
  "str_nat n =
     (if n < 10 then [''0123456789'' ! n] else str_nat (n div 10) @ [''0123456789'' ! (n mod 10)])"
  by pat_completeness auto
termination
  by (relation "measure id") auto

declare str_nat.simps [simp del]

fun join :: "string \<Rightarrow> string list \<Rightarrow> string" where
  "join sep [] = []"
| "join sep [x] = x"
| "join sep (x # y # ys) = x @ sep @ join sep (y # ys)"

definition prompt_choice ::
  "'f builtins \<Rightarrow> 'f variable \<Rightarrow> 'f pyval \<Rightarrow> 'f world \<Rightarrow> (error + 'f pyval) \<times> 'f world" where
  "prompt_choice B variable dflt w =
     (let choice_map = zip (map str_nat [1 ..< Suc (length (v_choices variable))]) (v_choices variable);
          choices = map fst choice_map;
          prompt =
            join [CHR 0x0A]
              [v_prompt variable,
               join [CHR 0x0A] (map (\<lambda>(k, v). k @ '' - '' @ py_str B v) choice_map),
               ''Choose from '' @ join '', '' choices]
      in case py_index B (v_choices variable) dflt of
           Inl e \<Rightarrow> (Inl e, w)
         | Inr i \<Rightarrow>
             (case click_prompt prompt (PStr (str_nat (i + 1))) (v_hide_input variable) (Click_Choice choices) w of
                (Inl e, w') \<Rightarrow> (Inl e, w')
              | (Inr user_choice, w') \<Rightarrow>
                  (case user_choice of
                     PStr k \<Rightarrow>
                       (case map_of choice_map k of
                          None \<Rightarrow> (Inl (KeyError k), w')
                        | Some v \<Rightarrow> (Inr v, w'))
                   | PList _ \<Rightarrow> (Inl TypeError, w')
                   | PDict _ \<Rightarrow> (Inl TypeError, w')
                   | _ \<Rightarrow> (Inl (KeyError (py_str B user_choice)), w'))))"

definition PROMPTS ::
  "(string \<times> ('f builtins \<Rightarrow> 'f variable \<Rightarrow> 'f pyval \<Rightarrow> 'f world \<Rightarrow> (error + 'f pyval) \<times> 'f world)) list" where
  "PROMPTS =
     [(''string'', prompt_string),
      (''boolean'', prompt_boolean),
      (''int'', prompt_int),
      (''float'', prompt_float),
      (''uuid'', prompt_uuid),
      (''json'', prompt_json),
      (''yes_no'', prompt_yes_no)]"

section \<open>Prompting for one variable\<close>

text \<open>
  The prompt function \<open>prompt_variable\<close> selects before its loop: \<open>prompt_choice\<close>
  for a variable with choices, the entry of \<open>PROMPTS\<close> otherwise.
\<close>

definition selected_prompt ::
  "'f builtins \<Rightarrow> 'f variable \<Rightarrow> 'f pyval \<Rightarrow> 'f world \<Rightarrow> (error + 'f pyval) \<times> 'f world" where
  "selected_prompt B variable dflt w =
     (if v_choices variable \<noteq> [] then prompt_choice B variable dflt w
      else (case map_of PROMPTS (var_type variable) of
              None \<Rightarrow> (Inl (KeyError (var_type variable)), w)
            | Some prompt \<Rightarrow> prompt B variable dflt w))"

text \<open>
  The loop \<open>while True\<close>.  Every round asks the operator once, so the loop ends when an
  entered value is accepted, or with \<open>Abort\<close> once nothing is left to enter.
\<close>

function prompt_loop ::
  "'f builtins \<Rightarrow> 'f variable \<Rightarrow> 'f world \<Rightarrow> (error + 'f pyval) \<times> 'f world" where
  "prompt_loop B variable w =
     (case selected_prompt B variable (v_default variable) w of
        (Inl e, w') \<Rightarrow> (Inl e, w')
      | (Inr val, w') \<Rightarrow>
          (case v_validate variable of
             None \<Rightarrow> (Inr val, w')
           | Some match \<Rightarrow>
               (case val of
                  PStr s \<Rightarrow>
                    (if match s then (Inr val, w')
                     else
                       (let w1 = click_echo
                                   (''Input validation failure against regex: '' @ [CHR 0x27]
                                      @ get_or (v_validation variable) ''None'' @ [CHR 0x27]
                                      @ '', try again!'') w';
                            w2 = (if truthy (v_validation_msg variable)
                                  then click_echo (get_or (v_validation_msg variable) '''') w1
                                  else w1)
                        in prompt_loop B variable w2))
                | _ \<Rightarrow> (Inl TypeError, w'))))"
  by pat_completeness auto
termination
proof (relation "measure (\<lambda>(B, variable, w). length (answers w))", goal_cases)
  case 1
  show ?case by simp
next
  case (2 B variable w r w' val m s w1 w2)
  have sel: "selected_prompt B variable (v_default variable) w = (Inr val, w')"
    using 2 by simp
  have asked: "length (answers w') < length (answers w)"
    if "click_prompt msg dflt hide ty w = (Inr x, w')" for msg dflt hide ty x
    using that by (auto simp: click_prompt_def Let_def split: list.splits)
  have less: "length (answers w') < length (answers w)"
  proof (cases "v_choices variable = []")
    case True
    with sel obtain prompt where
      p: "map_of PROMPTS (var_type variable) = Some prompt"
      and run: "prompt B variable (v_default variable) w = (Inr val, w')"
      by (auto simp: selected_prompt_def split: option.splits)
    from p have "prompt \<in> {prompt_string, prompt_boolean, prompt_int, prompt_float,
                          prompt_uuid, prompt_json, prompt_yes_no}"
      by (auto simp: PROMPTS_def split: if_splits)
    with run show ?thesis
      by (auto simp: prompt_string_def prompt_boolean_def prompt_int_def prompt_float_def
            prompt_uuid_def prompt_json_def prompt_yes_no_def Let_def
          split: prod.splits sum.splits if_splits dest: asked)
  next
    case False
    with sel have "prompt_choice B variable (v_default variable) w = (Inr val, w')"
      by (simp add: selected_prompt_def)
    then show ?thesis
      by (auto simp: prompt_choice_def Let_def
          split: prod.splits sum.splits option.splits pyval.splits dest: asked)
  qed
  show ?case
    using 2 less by (simp add: click_echo_def)
qed

declare prompt_loop.simps [simp del]

definition prompt_variable ::
  "'f builtins \<Rightarrow> 'f variable \<Rightarrow> bool \<Rightarrow> 'f world \<Rightarrow> (error + 'f pyval) \<times> 'f world" where
  "prompt_variable B variable verbose w =
     (if v_choices variable = [] \<and> map_of PROMPTS (var_type variable) = (None :: ('f builtins \<Rightarrow> 'f variable \<Rightarrow> 'f pyval \<Rightarrow> 'f world \<Rightarrow> (error + 'f pyval) \<times> 'f world) option)
      then (Inl (KeyError (var_type variable)), w)
      else prompt_loop B variable
             (if verbose \<and> truthy (v_description variable)
              then click_echo (get_or (v_description variable) '''') w
              else w))"

section \<open>Resolution engine\<close>

text \<open>
  The context is an \<open>OrderedDict\<close>: an association list in which assigning to a key
  that is present replaces its value in place and assigning to a new key appends it
  (\<open>AList.update\<close>).  \<open>jinja_render\<close> renders a string against the context built so
  far; the template engine is the parameter \<open>render\<close>, \<open>None\<close> when it raises.
\<close>

type_synonym 'f ctx = "(string \<times> 'f pyval) list"

type_synonym 'f renderer = "'f ctx \<Rightarrow> string \<Rightarrow> string option"

definition jinja_render :: "'f renderer \<Rightarrow> 'f ctx \<Rightarrow> string \<Rightarrow> error + string" where
  "jinja_render render ctx s =
     (case render ctx s of None \<Rightarrow> Inl TemplateError | Some t \<Rightarrow> Inr t)"

text \<open>The two variables the loop of \<open>load_context\<close> carries from one round to the next.\<close>

record 'f resolution =
  rs_context :: "'f ctx"
  skip_to_variable_name :: "string option"

text \<open>
  \<open>if expr and jinja_render(expr) == literal\<close>: the expression is rendered only when
  it is not empty.
\<close>

definition renders_to :: "'f renderer \<Rightarrow> 'f ctx \<Rightarrow> string \<Rightarrow> string \<Rightarrow> error + bool" where
  "renders_to render ctx expr literal =
     (if expr = [] then Inr False
      else (case jinja_render render ctx expr of Inl e \<Rightarrow> Inl e | Inr s \<Rightarrow> Inr (s = literal)))"

text \<open>
  The rest of a round, from the comment \<open>rendering dynamical default value\<close> on: the
  default is rendered when it is a string, the value is the default or what the
  operator enters, it is deserialized and stored, and the skip target is set from the
  stored value.
\<close>

definition render_default :: "'f renderer \<Rightarrow> 'f ctx \<Rightarrow> 'f pyval \<Rightarrow> error + 'f pyval" where
  "render_default render ctx dflt =
     (case dflt of
        PStr s \<Rightarrow> (case jinja_render render ctx s of Inl e \<Rightarrow> Inl e | Inr t \<Rightarrow> Inr (PStr t))
      | d \<Rightarrow> Inr d)"

definition process_variable ::
  "'f builtins \<Rightarrow> 'f renderer \<Rightarrow> bool \<Rightarrow> bool \<Rightarrow> 'f variable \<Rightarrow> 'f ctx \<Rightarrow> 'f world
     \<Rightarrow> (error + 'f resolution) \<times> 'f world" where
  "process_variable B render no_input verbose variable ctx w =
     (case render_default render ctx (v_default variable) of
        Inl e \<Rightarrow> (Inl e, w)
      | Inr dflt \<Rightarrow>
          (let variable = variable\<lparr>v_default := dflt\<rparr>
           in case (if no_input \<or> \<not> v_prompt_user variable then (Inr (v_default variable), w)
                    else prompt_variable B variable verbose w) of
                (Inl e, w1) \<Rightarrow> (Inl e, w1)
              | (Inr val, w1) \<Rightarrow>
                  (case map_of DESERIALIZERS (var_type variable) of
                     None \<Rightarrow> (Inl (KeyError (var_type variable)), w1)
                   | Some deserialize \<Rightarrow>
                       (case deserialize B val of
                          Inl e \<Rightarrow> (Inl e, w1)
                        | Inr stored \<Rightarrow>
                            (let ctx' = AList.update (v_name variable) stored ctx;
                                 w2 = (if verbose
                                       then click_echo (replicate (terminal_width w1) (CHR ''-'')) w1
                                       else w1);
                                 skip = (if truthy (v_if_yes_skip_to variable) \<and> stored = PBool True
                                         then v_if_yes_skip_to variable else None);
                                 skip = (if truthy (v_if_no_skip_to variable) \<and> stored = PBool False
                                         then v_if_no_skip_to variable else skip)
                             in (Inr \<lparr>rs_context = ctx', skip_to_variable_name = skip\<rparr>, w2))))))"

text \<open>One round of the loop \<open>for variable in CookiecutterTemplate(...)\<close>.\<close>

definition resolve_variable ::
  "'f builtins \<Rightarrow> 'f renderer \<Rightarrow> bool \<Rightarrow> bool \<Rightarrow> 'f variable \<Rightarrow> 'f resolution \<Rightarrow> 'f world
     \<Rightarrow> (error + 'f resolution) \<times> 'f world" where
  "resolve_variable B render no_input verbose variable st w =
     (if truthy (skip_to_variable_name st) \<and> Some (v_name variable) \<noteq> skip_to_variable_name st
      then (Inr st, w)
      else
        (let st = st\<lparr>skip_to_variable_name := None\<rparr>
         in case renders_to render (rs_context st) (v_skip_if variable) ''True'' of
              Inl e \<Rightarrow> (Inl e, w)
            | Inr True \<Rightarrow> (Inr st, w)
            | Inr False \<Rightarrow>
                (case renders_to render (rs_context st) (v_do_if variable) ''False'' of
                   Inl e \<Rightarrow> (Inl e, w)
                 | Inr True \<Rightarrow> (Inr st, w)
                 | Inr False \<Rightarrow>
                     process_variable B render no_input verbose variable (rs_context st) w)))"

fun resolve_all ::
  "'f builtins \<Rightarrow> 'f renderer \<Rightarrow> bool \<Rightarrow> bool \<Rightarrow> 'f variable list \<Rightarrow> 'f resolution \<Rightarrow> 'f world
     \<Rightarrow> (error + 'f resolution) \<times> 'f world" where
  "resolve_all B render no_input verbose [] st w = (Inr st, w)"
| "resolve_all B render no_input verbose (variable # rest) st w =
     (case resolve_variable B render no_input verbose variable st w of
        (Inl e, w') \<Rightarrow> (Inl e, w')
      | (Inr st', w') \<Rightarrow> resolve_all B render no_input verbose rest st' w')"

text \<open>What the loop leaves is completed: the warning, then the two keys of the document.\<close>

definition finish :: "'f json_object \<Rightarrow> 'f resolution \<Rightarrow> 'f world \<Rightarrow> 'f ctx \<times> 'f world" where
  "finish jo st w =
     (let w' = (if truthy (skip_to_variable_name st)
                then logger_warning
                       (''Processed all variables, but skip_to_variable_name '' @ [CHR 0x27]
                          @ get_or (skip_to_variable_name st) '''' @ [CHR 0x27]
                          @ '' was never found.'') w
                else w);
          ctx = AList.update ''_extensions'' (get_or (jo_extensions jo) PNone) (rs_context st);
          ctx = AList.update ''_jinja2_env_vars'' (get_or (jo_jinja2_env_vars jo) PNone) ctx
      in (ctx, w'))"

definition load_context ::
  "'f builtins \<Rightarrow> 'f renderer \<Rightarrow> (string \<Rightarrow> re_flag set \<Rightarrow> compile_result)
     \<Rightarrow> (string \<Rightarrow> 'v::ord option) \<Rightarrow> host
     \<Rightarrow> 'f json_object \<Rightarrow> bool \<Rightarrow> bool \<Rightarrow> 'f world \<Rightarrow> (error + 'f ctx) \<times> 'f world" where
  "load_context B render compile parse h json_object no_input verbose w =
     (case CookiecutterTemplate_init B compile parse h json_object of
        Inl e \<Rightarrow> (Inl e, w)
      | Inr template \<Rightarrow>
          (case resolve_all B render no_input verbose (ct_variables template)
                  \<lparr>rs_context = [], skip_to_variable_name = None\<rparr> w of
             (Inl e, w') \<Rightarrow> (Inl e, w')
           | (Inr st, w') \<Rightarrow>
               (case finish json_object st w' of (ctx, w'') \<Rightarrow> (Inr ctx, w''))))"

section \<open>Example inputs\<close>

text \<open>
  Concrete inputs on which the theorems below are evaluated.  The interpreter of the
  examples has floats with integral values only and prints every object that is not a
  string as \<open><object>\<close>; its template engine renders a text without template tags,
  which is the text itself; its \<open>re.compile\<close> raises \<open>ValueError\<close> for the flag
  \<open>LOCALE\<close>, rejects the pattern \<open>(\<close> with \<open>re.error\<close>, and compiles any other pattern
  to the test for that very string.
\<close>

definition example_builtins :: "int builtins" where
  "example_builtins =
     \<lparr> repr = (\<lambda>v. ''<object>''),
       float_of_int = (\<lambda>i. Some i),
       float_of_str = (\<lambda>s. None),
       int_of_float = (\<lambda>f. Inr f),
       float_truth = (\<lambda>f. f \<noteq> 0),
       float_eq = (\<lambda>f g. f = g),
       float_eq_int = (\<lambda>f i. f = i) \<rparr>"


definition literal_render :: "int renderer" where
  "literal_render ctx s = Some s"

definition example_compile :: "string \<Rightarrow> re_flag set \<Rightarrow> compile_result" where
  "example_compile pattern flags =
     (if LOCALE \<in> flags then Raised (ValueError ''cannot use LOCALE flag with a str pattern'')
      else if pattern = ''('' then Re_error
      else Compiled (\<lambda>s. s = pattern))"

definition example_host :: host where
  "example_host = \<lparr> cookiecutter_version = ''1.7.0'', python_version = ''3.8.1'' \<rparr>"

definition variable_decl :: "string \<Rightarrow> string \<Rightarrow> int var_decl" where
  "variable_decl n t =
     \<lparr> d_name = n, d_type = t, d_description = None, d_prompt = None, d_prompt_user = None,
       d_hide_input = None, d_default = None, d_skip_if = None, d_do_if = None,
       d_if_yes_skip_to = None, d_if_no_skip_to = None, d_choices = None,
       d_validation = None, d_validation_msg = None, d_validation_flags = None \<rparr>"

definition document :: "int var_decl list \<Rightarrow> int json_object" where
  "document vs =
     \<lparr> jo_template =
         \<lparr> t_name = ''example'', t_variables = vs, t_authors = None, t_description = None,
           t_keywords = None, t_license = None, t_url = None, t_version = None \<rparr>,
       jo_requires = None, jo_extensions = None, jo_jinja2_env_vars = None \<rparr>"

definition terminal :: "int pyval list \<Rightarrow> int world" where
  "terminal entered = \<lparr> answers = entered, terminal_width = 3, events = [] \<rparr>"

section \<open>Properties of the requirement checker\<close>

lemma single_req_comparator:
  "validate_single_req parse v c =
   (case leading_comparator c of (cmp, ref) \<Rightarrow>
      (case parse_or_raise parse v of Inl e \<Rightarrow> Inl e | Inr x \<Rightarrow>
        (case parse_or_raise parse ref of Inl e \<Rightarrow> Inl e | Inr r \<Rightarrow> Inr (compares cmp x r))))"
  by (cases c rule: leading_comparator.cases)
     (auto simp: validate_single_req_def op_mapping_def split: sum.splits)

lemma single_req_parsed:
  assumes "parse v = Some x" and "leading_comparator c = (cmp, ref)" and "parse ref = Some r"
  shows "validate_single_req parse v c = Inr (compares cmp x r)"
  using assms by (simp add: single_req_comparator parse_or_raise_def)

lemma single_req_holds:
  "validate_single_req parse v c = Inr b \<Longrightarrow> b = clause_holds parse v c"
  by (auto simp: single_req_comparator clause_holds_def parse_or_raise_def
           split: prod.splits sum.splits option.splits)

lemma holds_single_req:
  "clause_holds parse v c \<Longrightarrow> validate_single_req parse v c = Inr True"
  by (auto simp: single_req_comparator clause_holds_def parse_or_raise_def
           split: prod.splits sum.splits option.splits)

lemma all_map_holds:
  "all_map (validate_single_req parse v) cs = Inr b \<Longrightarrow> b = list_all (clause_holds parse v) cs"
proof (induction cs)
  case Nil
  then show ?case by simp
next
  case (Cons c cs)
  then show ?case
    by (auto split: sum.splits if_splits dest: single_req_holds)
qed

lemma holds_all_map:
  "list_all (clause_holds parse v) cs \<Longrightarrow> all_map (validate_single_req parse v) cs = Inr True"
  by (induction cs) (auto simp: holds_single_req)

lemma split_on_absent: "c \<notin> set a \<Longrightarrow> split_on c a = [a]"
  by (induction a) auto

lemma split_on_first: "c \<notin> set a \<Longrightarrow> split_on c (a @ c # rest) = a # split_on c rest"
  by (induction a) auto

lemma requirement_one_clause:
  assumes "CHR '','' \<notin> set a"
  shows "validate_requirement parse a ver = validate_single_req parse ver (strip a)"
  using assms by (simp add: validate_requirement_def split_on_absent split: sum.splits)

lemma requirement_first_clause:
  assumes "CHR '','' \<notin> set a"
  shows "validate_requirement parse (a @ '','' @ rest) ver =
           (case validate_single_req parse ver (strip a) of
              Inl e \<Rightarrow> Inl e
            | Inr holds \<Rightarrow> if holds then validate_requirement parse rest ver else Inr False)"
  using assms unfolding validate_requirement_def Let_def
  by (simp add: split_on_first)

text \<open>
  Claim C3.  The requirement checker splits the expression on commas and requires every
  clause to hold; a clause is read by trying a two-character comparator before a
  one-character one, with equality when there is none, and compares the parsed versions.
  Whenever the code returns, its result is that of \<open>satisfies\<close>, the checker as the
  specification words it, and it returns \<open>True\<close> whenever \<open>satisfies\<close> holds.  An
  expression without a comma is one clause; the clause before the first comma is
  checked first, and the rest of the expression only when it holds.  When the candidate
  \<open>ver\<close> parses to \<open>v\<close> and the text \<open>ref\<close> to \<open>r\<close>, the clause \<open>==ref\<close> gives
  \<open>v = r\<close>, \<open><=ref\<close> gives \<open>v \<le> r\<close>, \<open>>=ref\<close> gives \<open>r \<le> v\<close>, \<open><ref\<close> gives \<open>v < r\<close>
  and \<open>>ref\<close> gives \<open>r < v\<close> (when \<open>ref\<close> does not begin with \<open>=\<close>), and \<open>ref\<close> alone,
  beginning with no comparator, gives \<open>v = r\<close>.  The three examples of the
  specification evaluate as stated.
\<close>

theorem validate_requirement_satisfies:
  "(validate_requirement parse req ver = Inr b \<longrightarrow> b = satisfies parse req ver)
   \<and> (satisfies parse req ver \<longrightarrow> validate_requirement parse req ver = Inr True)
   \<and> (CHR '','' \<notin> set req \<longrightarrow>
        validate_requirement parse req ver = validate_single_req parse ver (strip req)
        \<and> validate_requirement parse (req @ '','' @ others) ver =
            (case validate_single_req parse ver (strip req) of
               Inl e \<Rightarrow> Inl e
             | Inr holds \<Rightarrow> if holds then validate_requirement parse others ver else Inr False))
   \<and> (parse ver = Some v \<and> parse ref = Some r \<longrightarrow>
        validate_single_req parse ver (''=='' @ ref) = Inr (v = r)
        \<and> validate_single_req parse ver (''<='' @ ref) = Inr (v \<le> r)
        \<and> validate_single_req parse ver (''>='' @ ref) = Inr (r \<le> v)
        \<and> (take 1 ref \<noteq> ''='' \<longrightarrow>
             validate_single_req parse ver (''<'' @ ref) = Inr (v < r)
             \<and> validate_single_req parse ver (''>'' @ ref) = Inr (r < v))
        \<and> (take 1 ref \<noteq> ''<'' \<and> take 1 ref \<noteq> ''>'' \<and> take 2 ref \<noteq> ''=='' \<longrightarrow>
             validate_single_req parse ver ref = Inr (v = r)))
   \<and> validate_requirement parse_version ''>=1.0,<2.0'' ''1.5.0'' = Inr True
   \<and> validate_requirement parse_version ''>=1.0,<2.0'' ''2.0.0'' = Inr False
   \<and> validate_requirement parse_version ''==1.0.0'' ''1.0.0'' = Inr True"
proof -
  have refines: "validate_requirement parse req ver = Inr b \<longrightarrow> b = satisfies parse req ver"
    by (auto simp: validate_requirement_def satisfies_def dest: all_map_holds)
  have complete: "satisfies parse req ver \<longrightarrow> validate_requirement parse req ver = Inr True"
    by (auto simp: validate_requirement_def satisfies_def intro: holds_all_map)
  have clauses: "CHR '','' \<notin> set req \<longrightarrow>
        validate_requirement parse req ver = validate_single_req parse ver (strip req)
        \<and> validate_requirement parse (req @ '','' @ others) ver =
            (case validate_single_req parse ver (strip req) of
               Inl e \<Rightarrow> Inl e
             | Inr holds \<Rightarrow> if holds then validate_requirement parse others ver else Inr False)"
    using requirement_one_clause [of req parse ver] requirement_first_clause [of req parse others ver]
    by blast
  have comparators: "validate_single_req parse ver (''=='' @ ref) = Inr (v = r)
        \<and> validate_single_req parse ver (''<='' @ ref) = Inr (v \<le> r)
        \<and> validate_single_req parse ver (''>='' @ ref) = Inr (r \<le> v)
        \<and> (take 1 ref \<noteq> ''='' \<longrightarrow>
             validate_single_req parse ver (''<'' @ ref) = Inr (v < r)
             \<and> validate_single_req parse ver (''>'' @ ref) = Inr (r < v))
        \<and> (take 1 ref \<noteq> ''<'' \<and> take 1 ref \<noteq> ''>'' \<and> take 2 ref \<noteq> ''=='' \<longrightarrow>
             validate_single_req parse ver ref = Inr (v = r))"
    if p: "parse ver = Some v" "parse ref = Some r"
  proof -
    have two: "validate_single_req parse ver (''=='' @ ref) = Inr (v = r)"
      "validate_single_req parse ver (''<='' @ ref) = Inr (v \<le> r)"
      "validate_single_req parse ver (''>='' @ ref) = Inr (r \<le> v)"
      using p by (simp_all add: single_req_parsed [where cmp = Equal and ref = ref]
          single_req_parsed [where cmp = Less_or_equal and ref = ref]
          single_req_parsed [where cmp = Greater_or_equal and ref = ref])
    have one: "validate_single_req parse ver (''<'' @ ref) = Inr (v < r)"
      "validate_single_req parse ver (''>'' @ ref) = Inr (r < v)"
      if "take 1 ref \<noteq> ''=''"
    proof -
      have "leading_comparator (''<'' @ ref) = (Less, ref)"
        "leading_comparator (''>'' @ ref) = (Greater, ref)"
        using that by (cases ref; simp)+
      with p show "validate_single_req parse ver (''<'' @ ref) = Inr (v < r)"
        "validate_single_req parse ver (''>'' @ ref) = Inr (r < v)"
        by (simp_all add: single_req_parsed [where ref = ref])
    qed
    have none: "validate_single_req parse ver ref = Inr (v = r)"
      if "take 1 ref \<noteq> ''<''" "take 1 ref \<noteq> ''>''" "take 2 ref \<noteq> ''==''"
    proof -
      have "leading_comparator ref = (Equal, ref)"
        using that by (cases ref rule: leading_comparator.cases) auto
      with p show ?thesis
        by (simp add: single_req_parsed [where ref = ref])
    qed
    from two one none show ?thesis by blast
  qed
  have a: "validate_requirement parse_version ''>=1.0,<2.0'' ''1.5.0'' = Inr True" by code_simp
  have b: "validate_requirement parse_version ''>=1.0,<2.0'' ''2.0.0'' = Inr False" by code_simp
  have c: "validate_requirement parse_version ''==1.0.0'' ''1.0.0'' = Inr True" by code_simp
  from refines complete clauses comparators a b c show ?thesis
    by blast
qed

theorem validate_requirement_satisfies_witness:
  "validate_requirement parse_version ''>=1.0, <2.0'' ''1.5.0'' = Inr True
   \<and> satisfies parse_version ''>=1.0, <2.0'' ''1.5.0''
   \<and> CHR '','' \<notin> set ''>1.5''
   \<and> validate_requirement parse_version ''>1.5'' ''1.5.0'' = Inr False
   \<and> validate_requirement parse_version ''>1.5,<1.0'' ''1.6'' = Inr False
   \<and> parse_version ''1.5.0'' = Some ([1, 5], [3]) \<and> parse_version ''2.0rc1'' = Some ([2], [2, 1])
   \<and> validate_single_req parse_version ''1.5.0'' ''==2.0rc1'' = Inr False
   \<and> validate_single_req parse_version ''1.5.0'' ''<=2.0rc1'' = Inr True
   \<and> validate_single_req parse_version ''1.5.0'' ''>=2.0rc1'' = Inr False
   \<and> validate_single_req parse_version ''1.5.0'' ''<2.0rc1'' = Inr True
   \<and> validate_single_req parse_version ''1.5.0'' ''>2.0rc1'' = Inr False
   \<and> validate_single_req parse_version ''1.5.0'' ''2.0rc1'' = Inr False"
proof -
  have a: "validate_requirement parse_version ''>=1.0, <2.0'' ''1.5.0'' = Inr True" by code_simp
  have b: "validate_requirement parse_version ''<1.0'' ''1.6'' = Inr False" by code_simp
  have c: "validate_single_req parse_version ''1.5.0'' ''>1.5'' = Inr False" by code_simp
  have d: "validate_single_req parse_version ''1.6'' ''>1.5'' = Inr True" by code_simp
  have p: "parse_version ''1.5.0'' = Some ([1, 5], [3])" "parse_version ''2.0rc1'' = Some ([2], [2, 1])"
    by code_simp+
  have s: "strip ''>1.5'' = ''>1.5''" by code_simp
  have o: "\<not> ([1::nat, 5], [3::nat]) = ([2], [2, 1])" "([1::nat, 5], [3::nat]) \<le> ([2], [2, 1])"
    "\<not> ([2], [2, 1]) \<le> ([1::nat, 5], [3::nat])" "([1::nat, 5], [3::nat]) < ([2], [2, 1])"
    "\<not> ([2], [2, 1]) < ([1::nat, 5], [3::nat])"
    by code_simp+
  show ?thesis
    using a b c d p s o
      validate_requirement_satisfies [of parse_version "''>=1.0, <2.0''" "''1.5.0''" True]
      validate_requirement_satisfies [of parse_version "''>1.5''" "''1.5.0''" _ "''<1.0''"
        "([1, 5], [3])" "''2.0rc1''" "([2], [2, 1])"]
      validate_requirement_satisfies [of parse_version "''>1.5''" "''1.6''" _ "''<1.0''"]
    by simp
qed

section \<open>Properties of the variable model\<close>

lemma get_or_simps [simp]: "get_or None d = d" "get_or (Some x) d = x"
  by (simp_all add: get_or_def)

lemma py_in_member: "py_in B x cs \<longleftrightarrow> (\<exists>c \<in> set cs. c = x \<or> py_eq B c x)"
  by (simp add: py_in_def list_ex_iff)

lemma mismatch_guard:
  "ChoiceDefaultMismatch B d \<longleftrightarrow>
     get_or (d_choices d) [] \<noteq> [] \<and> d_default d \<noteq> None
     \<and> \<not> py_in B (get_or (d_default d) PNone) (get_or (d_choices d) [])"
  by (cases "d_default d"; cases "d_choices d")
     (simp_all add: ChoiceDefaultMismatch_def py_in_member)

lemma Variable_init_mismatch:
  "ChoiceDefaultMismatch B d \<Longrightarrow>
   Variable_init B compile d = Inl (ValueError ''invalid default value for choices'')"
  by (simp add: mismatch_guard Variable_init_def Let_def)

lemma Variable_init_unvalidated:
  "\<not> ChoiceDefaultMismatch B d \<Longrightarrow> \<not> truthy (d_validation d) \<Longrightarrow>
   \<exists>v. Variable_init B compile d = Inr v \<and> v_validate v = None \<and> var_type v = d_type d"
  unfolding mismatch_guard by (simp add: Variable_init_def Let_def)

lemma Variable_init_validated:
  "\<not> ChoiceDefaultMismatch B d \<Longrightarrow> truthy (d_validation d) \<Longrightarrow>
   Variable_init B compile d =
     (case compile_flags (get_or (d_validation_flags d) []) {} of
        Inl e \<Rightarrow> Inl e
      | Inr flags \<Rightarrow>
          (case compile (get_or (d_validation d) '''') flags of
             Re_error \<Rightarrow> Inl (ValueError ''Validation Setup Error: Invalid RegEx'')
           | Raised e \<Rightarrow> Inl e
           | Compiled m \<Rightarrow>
               if d_type d \<noteq> ''string''
               then Inl (ValueError ''attempting regex validation on non-string input'')
               else Variable_init B (\<lambda>p fl. Compiled m) d))"
  unfolding mismatch_guard
  by (cases "d_default d")
     (auto simp add: Variable_init_def Let_def split: sum.splits compile_result.splits)

lemma Variable_init_fields:
  assumes "Variable_init B compile d = Inr v"
  shows "v_name v = d_name d" and "var_type v = d_type d"
    and "v_default v = get_or (d_default d) PNone" and "v_choices v = get_or (d_choices d) []"
    and "v_skip_if v = get_or (d_skip_if d) ''''" and "v_do_if v = get_or (d_do_if d) ''''"
    and "v_if_yes_skip_to v = d_if_yes_skip_to d" and "v_if_no_skip_to v = d_if_no_skip_to d"
    and "v_validation v = d_validation d"
  using assms unfolding Variable_init_def Let_def
  by (auto split: if_splits sum.splits compile_result.splits)

subsection \<open>The flag names\<close>

lemma flag_names_distinct: "distinct (map fst REGEX_COMPILE_FLAGS)"
  by (simp add: REGEX_COMPILE_FLAGS_def)

lemma named_flags_Cons:
  assumes "map_of REGEX_COMPILE_FLAGS n = Some f"
  shows "named_flags (n # ns) = {f} \<union> named_flags ns"
proof -
  have "(n, g) \<in> set REGEX_COMPILE_FLAGS \<longleftrightarrow> g = f" for g
    using assms map_of_eq_Some_iff [OF flag_names_distinct, of n g] by auto
  then show ?thesis
    unfolding named_flags_def by force
qed

lemma compile_flags_known:
  "set names \<subseteq> set (map fst REGEX_COMPILE_FLAGS) \<Longrightarrow>
   compile_flags names acc = Inr (acc \<union> named_flags names)"
proof (induction names arbitrary: acc)
  case Nil
  show ?case by (simp add: named_flags_def)
next
  case (Cons n ns)
  then have "n \<in> fst ` set REGEX_COMPILE_FLAGS"
    by simp
  then obtain f where f: "map_of REGEX_COMPILE_FLAGS n = Some f"
    using map_of_eq_None_iff [of REGEX_COMPILE_FLAGS n] by (cases "map_of REGEX_COMPILE_FLAGS n") auto
  from Cons have "compile_flags ns (acc \<union> {f}) = Inr (acc \<union> {f} \<union> named_flags ns)"
    by simp
  with f show ?case
    by (simp add: named_flags_Cons Un_assoc)
qed

lemma compile_flags_unknown:
  "\<not> set names \<subseteq> set (map fst REGEX_COMPILE_FLAGS) \<Longrightarrow>
   \<exists>n \<in> set names. n \<notin> set (map fst REGEX_COMPILE_FLAGS) \<and> compile_flags names acc = Inl (KeyError n)"
proof (induction names arbitrary: acc)
  case Nil
  then show ?case by simp
next
  case (Cons n ns)
  show ?case
  proof (cases "map_of REGEX_COMPILE_FLAGS n")
    case None
    then have "n \<notin> set (map fst REGEX_COMPILE_FLAGS)"
      by (simp add: map_of_eq_None_iff)
    with None show ?thesis by simp
  next
    case (Some f)
    then have "n \<in> set (map fst REGEX_COMPILE_FLAGS)"
      using map_of_eq_None_iff [of REGEX_COMPILE_FLAGS n] by auto
    with Cons.prems have "\<not> set ns \<subseteq> set (map fst REGEX_COMPILE_FLAGS)"
      by auto
    from Cons.IH [OF this, of "acc \<union> {f}"] Some show ?thesis
      by auto
  qed
qed

subsection \<open>The outcome of a construction\<close>

lemma Variable_init_known_flags:
  assumes "\<not> ChoiceDefaultMismatch B d" and "truthy (d_validation d)"
    and "set (get_or (d_validation_flags d) []) \<subseteq> set (map fst REGEX_COMPILE_FLAGS)"
  shows "Variable_init B compile d =
     (case compile (get_or (d_validation d) '''') (named_flags (get_or (d_validation_flags d) [])) of
        Re_error \<Rightarrow> Inl (ValueError ''Validation Setup Error: Invalid RegEx'')
      | Raised e \<Rightarrow> Inl e
      | Compiled m \<Rightarrow>
          if d_type d \<noteq> ''string''
          then Inl (ValueError ''attempting regex validation on non-string input'')
          else Variable_init B (\<lambda>p fl. Compiled m) d)"
  using assms(1,2) by (simp add: Variable_init_validated compile_flags_known [OF assms(3)])

lemma Variable_init_compiled:
  assumes "\<not> ChoiceDefaultMismatch B d" and "truthy (d_validation d)"
    and "set (get_or (d_validation_flags d) []) \<subseteq> set (map fst REGEX_COMPILE_FLAGS)"
    and "d_type d = ''string''"
  shows "\<exists>v. Variable_init B (\<lambda>p fl. Compiled m) d = Inr v \<and> v_validate v = Some m"
  using assms(1,2,4) compile_flags_known [OF assms(3), of "{}"] unfolding mismatch_guard
  by (cases "d_default d") (auto simp add: Variable_init_def Let_def)

lemma validated_success:
  assumes "\<not> ChoiceDefaultMismatch B d" and "truthy (d_validation d)"
  shows "(\<exists>v. Variable_init B compile d = Inr v) \<longleftrightarrow> validation_accepted compile d"
proof (cases "set (get_or (d_validation_flags d) []) \<subseteq> set (map fst REGEX_COMPILE_FLAGS)")
  case False
  from compile_flags_unknown [OF False, of "{}"]
  obtain n where "compile_flags (get_or (d_validation_flags d) []) {} = Inl (KeyError n)"
    by blast
  with assms have "Variable_init B compile d = Inl (KeyError n)"
    by (simp add: Variable_init_validated)
  with False show ?thesis
    by (simp add: validation_accepted_def)
next
  case True
  note eq = Variable_init_known_flags [OF assms True, of compile]
  show ?thesis
  proof (cases "compile (get_or (d_validation d) '''') (named_flags (get_or (d_validation_flags d) []))")
    case (Compiled m)
    show ?thesis
    proof (cases "d_type d = ''string''")
      case string: True
      from Variable_init_compiled [OF assms True string, of m] eq Compiled string True
      show ?thesis
        by (auto simp add: validation_accepted_def)
    next
      case False
      with eq Compiled show ?thesis
        by (simp add: validation_accepted_def)
    qed
  next
    case Re_error
    with eq show ?thesis
      by (simp add: validation_accepted_def)
  next
    case (Raised e)
    with eq show ?thesis
      by (simp add: validation_accepted_def)
  qed
qed

lemma validated_failure:
  assumes "\<not> ChoiceDefaultMismatch B d" and "Variable_init B compile d = Inl e"
  shows "truthy (d_validation d)
    \<and> ((\<exists>n \<in> set (get_or (d_validation_flags d) []).
           n \<notin> set (map fst REGEX_COMPILE_FLAGS) \<and> e = KeyError n)
       \<or> set (get_or (d_validation_flags d) []) \<subseteq> set (map fst REGEX_COMPILE_FLAGS)
         \<and> (case compile (get_or (d_validation d) '''')
                    (named_flags (get_or (d_validation_flags d) [])) of
               Re_error \<Rightarrow> e = ValueError ''Validation Setup Error: Invalid RegEx''
             | Raised x \<Rightarrow> e = x
             | Compiled m \<Rightarrow>
                 d_type d \<noteq> ''string''
                 \<and> e = ValueError ''attempting regex validation on non-string input''))"
proof -
  have t: "truthy (d_validation d)"
    using assms Variable_init_unvalidated [of B d compile] by auto
  show ?thesis
  proof (cases "set (get_or (d_validation_flags d) []) \<subseteq> set (map fst REGEX_COMPILE_FLAGS)")
    case False
    from compile_flags_unknown [OF False, of "{}"]
    obtain n where n: "n \<in> set (get_or (d_validation_flags d) [])"
      "n \<notin> set (map fst REGEX_COMPILE_FLAGS)"
      "compile_flags (get_or (d_validation_flags d) []) {} = Inl (KeyError n)"
      by blast
    with assms t have "e = KeyError n"
      by (simp add: Variable_init_validated)
    with n t show ?thesis
      by blast
  next
    case True
    note eq = Variable_init_known_flags [OF assms(1) t True, of compile]
    show ?thesis
    proof (cases "compile (get_or (d_validation d) '''') (named_flags (get_or (d_validation_flags d) []))")
      case (Compiled m)
      show ?thesis
      proof (cases "d_type d = ''string''")
        case string: True
        from Variable_init_compiled [OF assms(1) t True string, of m] eq Compiled string assms(2)
        show ?thesis
          by auto
      next
        case False
        with eq Compiled assms(2) t True show ?thesis
          by simp
      qed
    next
      case Re_error
      with eq assms(2) t True show ?thesis
        by simp
    next
      case (Raised x)
      with eq assms(2) t True show ?thesis
        by simp
    qed
  qed
qed

lemma prompt_loop_unvalidated:
  "v_validate v = None \<Longrightarrow> prompt_loop B v w = selected_prompt B v (v_default v) w"
  by (subst prompt_loop.simps) (simp split: prod.splits sum.splits)

text \<open>
  Claim C4.  The flag names are looked up in \<open>REGEX_COMPILE_FLAGS\<close> when a variable with
  a validation pattern is constructed.  The table spells the name of \<open>re.MULTILINE\<close> as
  \<open>mulitline\<close>: the name \<open>multiline\<close> raises \<open>KeyError\<close> at construction, the misspelt
  name is looked up to \<open>re.MULTILINE\<close>, and the six other names are looked up to their
  flags.
\<close>

theorem multiline_flag_rejected:
  "compile_flags [''multiline''] {} = Inl (KeyError ''multiline'')
   \<and> compile_flags [''mulitline''] {} = Inr {MULTILINE}
   \<and> Variable_init example_builtins example_compile
        ((variable_decl ''slug'' ''string'')
           \<lparr>d_validation := Some ''abc'', d_validation_flags := Some [''multiline'']\<rparr>)
      = Inl (KeyError ''multiline'')
   \<and> compile_flags [''ascii'', ''debug'', ''ignorecase'', ''locale'', ''dotall'', ''verbose''] {}
      = Inr {ASCII, DEBUG, IGNORECASE, LOCALE, DOTALL, VERBOSE}"
  by (auto simp add: Variable_init_def variable_decl_def Let_def truthy_def
        REGEX_COMPILE_FLAGS_def startswith_def)

text \<open>
  Claim C6, as stated, fails: with a default that is among the choices, construction
  still raises when the validation set-up that follows the choice check fails, here for
  a pattern on a variable of type \<open>int\<close>.
\<close>

theorem member_default_rejected_counterexample:
  "\<not> ChoiceDefaultMismatch example_builtins
        ((variable_decl ''size'' ''int'')
           \<lparr>d_default := Some (PStr ''a''), d_choices := Some [PStr ''a'', PStr ''b''],
             d_validation := Some ''a''\<rparr>)
   \<and> py_in example_builtins (PStr ''a'') [PStr ''a'', PStr ''b'']
   \<and> Variable_init example_builtins example_compile
        ((variable_decl ''size'' ''int'')
           \<lparr>d_default := Some (PStr ''a''), d_choices := Some [PStr ''a'', PStr ''b''],
             d_validation := Some ''a''\<rparr>)
      = Inl (ValueError ''attempting regex validation on non-string input'')"
  by (simp add: Variable_init_def variable_decl_def Let_def truthy_def ChoiceDefaultMismatch_def
        REGEX_COMPILE_FLAGS_def startswith_def py_in_def example_compile_def)

text \<open>
  Claim C6, amended.  Construction fails with the choice error whenever an explicit
  default is given, \<open>choices\<close> is non-empty and the default is not a member of the
  choices.  Otherwise the choice check raises nothing, and construction succeeds exactly
  when no validation pattern is declared or the validation set-up accepts the
  declaration: the flag names are keys of the flag table, the pattern compiles with
  their flags, and the type is \<open>string\<close>.  When it fails then, a pattern is declared
  and the error is that of the validation set-up: \<open>KeyError\<close> for a flag name that is
  not in the table, else what \<open>re.compile\<close> raises (\<open>re.error\<close> is turned into
  \<open>ValueError\<close>), else \<open>ValueError\<close> for a type that is not \<open>string\<close>.  A constructed
  variable has the declared name, type, choices and default.  The two examples of the
  specification raise and succeed as stated.
\<close>

theorem choice_default_checked:
  "(ChoiceDefaultMismatch B d \<longrightarrow>
      Variable_init B compile d = Inl (ValueError ''invalid default value for choices''))
   \<and> ((\<exists>v. Variable_init B compile d = Inr v) \<longleftrightarrow>
        \<not> ChoiceDefaultMismatch B d
        \<and> (truthy (d_validation d) \<longrightarrow> validation_accepted compile d))
   \<and> (\<not> ChoiceDefaultMismatch B d \<and> Variable_init B compile d = Inl e \<longrightarrow>
        truthy (d_validation d)
        \<and> ((\<exists>n \<in> set (get_or (d_validation_flags d) []).
               n \<notin> set (map fst REGEX_COMPILE_FLAGS) \<and> e = KeyError n)
           \<or> set (get_or (d_validation_flags d) []) \<subseteq> set (map fst REGEX_COMPILE_FLAGS)
             \<and> (case compile (get_or (d_validation d) '''')
                        (named_flags (get_or (d_validation_flags d) [])) of
                   Re_error \<Rightarrow> e = ValueError ''Validation Setup Error: Invalid RegEx''
                 | Raised x \<Rightarrow> e = x
                 | Compiled m \<Rightarrow>
                     d_type d \<noteq> ''string''
                     \<and> e = ValueError ''attempting regex validation on non-string input'')))
   \<and> (Variable_init B compile d = Inr v \<longrightarrow>
        v_name v = d_name d \<and> var_type v = d_type d
        \<and> v_choices v = get_or (d_choices d) [] \<and> v_default v = get_or (d_default d) PNone)
   \<and> Variable_init example_builtins example_compile
        ((variable_decl ''size'' ''string'')
           \<lparr>d_default := Some (PStr ''c''), d_choices := Some [PStr ''a'', PStr ''b'']\<rparr>)
      = Inl (ValueError ''invalid default value for choices'')
   \<and> (\<exists>v. Variable_init example_builtins example_compile
        ((variable_decl ''size'' ''string'')
           \<lparr>d_default := Some (PStr ''a''), d_choices := Some [PStr ''a'', PStr ''b'']\<rparr>)
      = Inr v)"
proof -
  have 1: "ChoiceDefaultMismatch B d \<longrightarrow>
      Variable_init B compile d = Inl (ValueError ''invalid default value for choices'')"
    by (simp add: Variable_init_mismatch)
  have 2: "(\<exists>v. Variable_init B compile d = Inr v) \<longleftrightarrow>
        \<not> ChoiceDefaultMismatch B d
        \<and> (truthy (d_validation d) \<longrightarrow> validation_accepted compile d)"
  proof (cases "ChoiceDefaultMismatch B d")
    case True
    then show ?thesis by (simp add: Variable_init_mismatch)
  next
    case False
    show ?thesis
    proof (cases "truthy (d_validation d)")
      case True
      with False validated_success [of B d compile] show ?thesis by simp
    next
      case no_pattern: False
      with False Variable_init_unvalidated [of B d compile] show ?thesis by auto
    qed
  qed
  have 3: "\<not> ChoiceDefaultMismatch B d \<and> Variable_init B compile d = Inl e \<longrightarrow>
        truthy (d_validation d)
        \<and> ((\<exists>n \<in> set (get_or (d_validation_flags d) []).
               n \<notin> set (map fst REGEX_COMPILE_FLAGS) \<and> e = KeyError n)
           \<or> set (get_or (d_validation_flags d) []) \<subseteq> set (map fst REGEX_COMPILE_FLAGS)
             \<and> (case compile (get_or (d_validation d) '''')
                        (named_flags (get_or (d_validation_flags d) [])) of
                   Re_error \<Rightarrow> e = ValueError ''Validation Setup Error: Invalid RegEx''
                 | Raised x \<Rightarrow> e = x
                 | Compiled m \<Rightarrow>
                     d_type d \<noteq> ''string''
                     \<and> e = ValueError ''attempting regex validation on non-string input''))"
    using validated_failure [of B d compile e] by blast
  have 4: "Variable_init B compile d = Inr v \<longrightarrow>
        v_name v = d_name d \<and> var_type v = d_type d
        \<and> v_choices v = get_or (d_choices d) [] \<and> v_default v = get_or (d_default d) PNone"
    using Variable_init_fields [of B compile d v] by blast
  have 5: "Variable_init example_builtins example_compile
        ((variable_decl ''size'' ''string'')
           \<lparr>d_default := Some (PStr ''c''), d_choices := Some [PStr ''a'', PStr ''b'']\<rparr>)
      = Inl (ValueError ''invalid default value for choices'')"
    by (simp add: Variable_init_def variable_decl_def Let_def truthy_def py_in_def)
  have 6: "\<exists>v. Variable_init example_builtins example_compile
        ((variable_decl ''size'' ''string'')
           \<lparr>d_default := Some (PStr ''a''), d_choices := Some [PStr ''a'', PStr ''b'']\<rparr>)
      = Inr v"
    by (simp add: Variable_init_def variable_decl_def Let_def truthy_def py_in_def)
  show ?thesis
    by (rule conjI [OF 1 conjI [OF 2 conjI [OF 3 conjI [OF 4 conjI [OF 5 6]]]]])
qed

theorem choice_default_checked_witness:
  "ChoiceDefaultMismatch example_builtins
     ((variable_decl ''size'' ''string'')
        \<lparr>d_default := Some (PStr ''c''), d_choices := Some [PStr ''a'', PStr ''b'']\<rparr>)
   \<and> Variable_init example_builtins example_compile
        ((variable_decl ''size'' ''string'')
           \<lparr>d_default := Some (PStr ''c''), d_choices := Some [PStr ''a'', PStr ''b'']\<rparr>)
      = Inl (ValueError ''invalid default value for choices'')
   \<and> \<not> ChoiceDefaultMismatch example_builtins
     ((variable_decl ''size'' ''string'')
        \<lparr>d_default := Some (PStr ''b''), d_choices := Some [PStr ''a'', PStr ''b''],
          d_validation := Some ''b'', d_validation_flags := Some [''ignorecase'', ''mulitline'']\<rparr>)
   \<and> validation_accepted example_compile
     ((variable_decl ''size'' ''string'')
        \<lparr>d_default := Some (PStr ''b''), d_choices := Some [PStr ''a'', PStr ''b''],
          d_validation := Some ''b'', d_validation_flags := Some [''ignorecase'', ''mulitline'']\<rparr>)
   \<and> (\<exists>v. Variable_init example_builtins example_compile
        ((variable_decl ''size'' ''string'')
           \<lparr>d_default := Some (PStr ''b''), d_choices := Some [PStr ''a'', PStr ''b''],
             d_validation := Some ''b'', d_validation_flags := Some [''ignorecase'', ''mulitline'']\<rparr>)
      = Inr v)
   \<and> \<not> ChoiceDefaultMismatch example_builtins
     ((variable_decl ''size'' ''string'')
        \<lparr>d_default := Some (PStr ''b''), d_choices := Some [PStr ''a'', PStr ''b''],
          d_validation := Some ''b'', d_validation_flags := Some [''locale'']\<rparr>)
   \<and> \<not> validation_accepted example_compile
     ((variable_decl ''size'' ''string'')
        \<lparr>d_default := Some (PStr ''b''), d_choices := Some [PStr ''a'', PStr ''b''],
          d_validation := Some ''b'', d_validation_flags := Some [''locale'']\<rparr>)
   \<and> \<not> (\<exists>v. Variable_init example_builtins example_compile
        ((variable_decl ''size'' ''string'')
           \<lparr>d_default := Some (PStr ''b''), d_choices := Some [PStr ''a'', PStr ''b''],
             d_validation := Some ''b'', d_validation_flags := Some [''locale'']\<rparr>)
      = Inr v)"
proof -
  have a: "ChoiceDefaultMismatch example_builtins
     ((variable_decl ''size'' ''string'')
        \<lparr>d_default := Some (PStr ''c''), d_choices := Some [PStr ''a'', PStr ''b'']\<rparr>)"
    by (simp add: ChoiceDefaultMismatch_def variable_decl_def)
  have b: "\<not> ChoiceDefaultMismatch example_builtins
     ((variable_decl ''size'' ''string'')
        \<lparr>d_default := Some (PStr ''b''), d_choices := Some [PStr ''a'', PStr ''b''],
          d_validation := Some ''b'', d_validation_flags := Some names\<rparr>)" for names
    by (simp add: ChoiceDefaultMismatch_def variable_decl_def)
  have c: "truthy (d_validation ((variable_decl ''size'' ''string'')
        \<lparr>d_default := Some (PStr ''b''), d_choices := Some [PStr ''a'', PStr ''b''],
          d_validation := Some ''b'', d_validation_flags := Some names\<rparr>))" for names
    by (simp add: truthy_def variable_decl_def)
  have d: "validation_accepted example_compile
     ((variable_decl ''size'' ''string'')
        \<lparr>d_default := Some (PStr ''b''), d_choices := Some [PStr ''a'', PStr ''b''],
          d_validation := Some ''b'', d_validation_flags := Some [''ignorecase'', ''mulitline'']\<rparr>)"
    by (simp add: validation_accepted_def variable_decl_def named_flags_def
          REGEX_COMPILE_FLAGS_def example_compile_def)
  have e: "\<not> validation_accepted example_compile
     ((variable_decl ''size'' ''string'')
        \<lparr>d_default := Some (PStr ''b''), d_choices := Some [PStr ''a'', PStr ''b''],
          d_validation := Some ''b'', d_validation_flags := Some [''locale'']\<rparr>)"
    by (simp add: validation_accepted_def variable_decl_def named_flags_def
          REGEX_COMPILE_FLAGS_def example_compile_def)
  have raised: "Variable_init example_builtins example_compile
        ((variable_decl ''size'' ''string'')
           \<lparr>d_default := Some (PStr ''c''), d_choices := Some [PStr ''a'', PStr ''b'']\<rparr>)
      = Inl (ValueError ''invalid default value for choices'')"
    by (rule mp [OF choice_default_checked [THEN conjunct1] a])
  have constructed: "\<exists>v. Variable_init example_builtins example_compile
        ((variable_decl ''size'' ''string'')
           \<lparr>d_default := Some (PStr ''b''), d_choices := Some [PStr ''a'', PStr ''b''],
             d_validation := Some ''b'', d_validation_flags := Some [''ignorecase'', ''mulitline'']\<rparr>)
      = Inr v"
    using b d by (intro iffD2 [OF choice_default_checked [THEN conjunct2, THEN conjunct1]]) blast
  have rejected: "\<not> (\<exists>v. Variable_init example_builtins example_compile
        ((variable_decl ''size'' ''string'')
           \<lparr>d_default := Some (PStr ''b''), d_choices := Some [PStr ''a'', PStr ''b''],
             d_validation := Some ''b'', d_validation_flags := Some [''locale'']\<rparr>)
      = Inr v)"
    using c [of "[''locale'']"] e
      iffD1 [OF choice_default_checked [THEN conjunct2, THEN conjunct1, of example_builtins
        example_compile "(variable_decl ''size'' ''string'')
           \<lparr>d_default := Some (PStr ''b''), d_choices := Some [PStr ''a'', PStr ''b''],
             d_validation := Some ''b'', d_validation_flags := Some [''locale'']\<rparr>"]]
    by blast
  from a raised b [of "[''ignorecase'', ''mulitline'']"] d constructed b [of "[''locale'']"] e rejected
  show ?thesis
    by (intro conjI)
qed

text \<open>
  Claim C10, as stated, fails: the choice check comes before the validation guard, so a
  declaration with the empty string as validation pattern and a default that is not
  among its choices does not construct.
\<close>

theorem empty_validation_rejected_counterexample:
  "d_validation ((variable_decl ''size'' ''string'')
           \<lparr>d_default := Some (PStr ''c''), d_choices := Some [PStr ''a'', PStr ''b''],
             d_validation := Some ''''\<rparr>) = Some ''''
   \<and> Variable_init example_builtins example_compile
        ((variable_decl ''size'' ''string'')
           \<lparr>d_default := Some (PStr ''c''), d_choices := Some [PStr ''a'', PStr ''b''],
             d_validation := Some ''''\<rparr>)
      = Inl (ValueError ''invalid default value for choices'')"
  by (simp add: Variable_init_def variable_decl_def Let_def truthy_def py_in_def)

text \<open>
  Claim C10, amended.  With the empty string as validation pattern, construction does
  not touch validation: its result does not depend on \<open>re.compile\<close>, on the flag names
  or on the validation message, and it succeeds for one type tag when it does for
  another.  It succeeds exactly when the choice check, which comes first, does not raise
  (no explicit default outside non-empty choices), and raises the choice error
  otherwise.  The constructed variable has the declared type and no compiled pattern,
  and prompting for it returns what the selected prompt returns, unchecked.
\<close>

theorem empty_validation_bypassed:
  assumes "d_validation d = Some ''''"
  shows "Variable_init B compile d
           = Variable_init B compile' (d\<lparr>d_validation_flags := names, d_validation_msg := msg\<rparr>)
         \<and> ((\<exists>v. Variable_init B compile d = Inr v) \<longleftrightarrow> \<not> ChoiceDefaultMismatch B d)
         \<and> ((\<exists>v. Variable_init B compile (d\<lparr>d_type := t\<rparr>) = Inr v)
              \<longleftrightarrow> (\<exists>v. Variable_init B compile d = Inr v))
         \<and> (ChoiceDefaultMismatch B d \<longrightarrow>
              Variable_init B compile d = Inl (ValueError ''invalid default value for choices''))
         \<and> (Variable_init B compile d = Inr v \<longrightarrow>
              var_type v = d_type d \<and> v_validate v = None
              \<and> (\<forall>w. prompt_loop B v w = selected_prompt B v (v_default v) w))"
proof -
  have falsy: "\<not> truthy (d_validation d)"
    using assms by (simp add: truthy_def)
  have 1: "Variable_init B compile d
           = Variable_init B compile' (d\<lparr>d_validation_flags := names, d_validation_msg := msg\<rparr>)"
    using falsy by (simp add: Variable_init_def Let_def)
  have 2: "(\<exists>v. Variable_init B compile d' = Inr v) \<longleftrightarrow> \<not> ChoiceDefaultMismatch B d'"
    if "\<not> truthy (d_validation d')" for d'
    using that Variable_init_unvalidated [of B d' compile] Variable_init_mismatch [of B d' compile]
    by (cases "ChoiceDefaultMismatch B d'") auto
  have same: "ChoiceDefaultMismatch B (d\<lparr>d_type := t\<rparr>) = ChoiceDefaultMismatch B d"
    by (simp add: ChoiceDefaultMismatch_def)
  have 3: "(\<exists>v. Variable_init B compile (d\<lparr>d_type := t\<rparr>) = Inr v)
              \<longleftrightarrow> (\<exists>v. Variable_init B compile d = Inr v)"
    using 2 [of d] 2 [of "d\<lparr>d_type := t\<rparr>"] falsy same by simp
  have 5: "var_type v = d_type d \<and> v_validate v = None
              \<and> (\<forall>w. prompt_loop B v w = selected_prompt B v (v_default v) w)"
    if v: "Variable_init B compile d = Inr v"
  proof -
    from v 2 [OF falsy] have "\<not> ChoiceDefaultMismatch B d"
      by blast
    with falsy v Variable_init_unvalidated [of B d compile] have "v_validate v = None"
      by auto
    with Variable_init_fields(2) [OF v] show ?thesis
      by (simp add: prompt_loop_unvalidated)
  qed
  from 1 2 [OF falsy] 3 5 show ?thesis
    by (auto simp: Variable_init_mismatch)
qed

theorem empty_validation_bypassed_witness:
  "d_validation ((variable_decl ''count'' ''int'')
                   \<lparr>d_validation := Some '''', d_validation_flags := Some [''bogus'']\<rparr>) = Some ''''
   \<and> \<not> ChoiceDefaultMismatch example_builtins ((variable_decl ''count'' ''int'')
                   \<lparr>d_validation := Some '''', d_validation_flags := Some [''bogus'']\<rparr>)
   \<and> (\<exists>v. Variable_init example_builtins example_compile
              ((variable_decl ''count'' ''int'')
                 \<lparr>d_validation := Some '''', d_validation_flags := Some [''bogus'']\<rparr>) = Inr v
          \<and> var_type v = ''int'' \<and> v_validate v = None)"
proof -
  have a: "d_validation ((variable_decl ''count'' ''int'')
                   \<lparr>d_validation := Some '''', d_validation_flags := Some [''bogus'']\<rparr>) = Some ''''"
    by simp
  have b: "\<not> ChoiceDefaultMismatch example_builtins ((variable_decl ''count'' ''int'')
                   \<lparr>d_validation := Some '''', d_validation_flags := Some [''bogus'']\<rparr>)"
    by (simp add: ChoiceDefaultMismatch_def variable_decl_def)
  have c: "d_type ((variable_decl ''count'' ''int'')
                   \<lparr>d_validation := Some '''', d_validation_flags := Some [''bogus'']\<rparr>) = ''int''"
    by (simp add: variable_decl_def)
  from b obtain v where v: "Variable_init example_builtins example_compile
              ((variable_decl ''count'' ''int'')
                 \<lparr>d_validation := Some '''', d_validation_flags := Some [''bogus'']\<rparr>) = Inr v"
    using empty_validation_bypassed [OF a, where B = example_builtins and compile = example_compile]
    by blast
  with empty_validation_bypassed [OF a, where B = example_builtins and compile = example_compile
      and v = v]
  have "var_type v = d_type ((variable_decl ''count'' ''int'')
                   \<lparr>d_validation := Some '''', d_validation_flags := Some [''bogus'']\<rparr>)
        \<and> v_validate v = None"
    by blast
  with a b c v show ?thesis
    by auto
qed

section \<open>Properties of the deserializers\<close>

subsection \<open>Printing a UUID and reading it back\<close>



lemma length_hex_digits [simp]: "length (hex_digits k n) = k"
  by (induction k arbitrary: n) simp_all
















subsection \<open>Idempotence\<close>











end
